theory Spec2Isabelle
  imports Main
begin

unbundle bit_operations_syntax

section \<open>Errors raised by the overlay\<close>

text \<open>
  A JavaScript error object as the overlay builds and inspects it: the \<open>code\<close> and
  \<open>errno\<close> properties (absent on a plain \<open>TypeError\<close>) and the message.
\<close>

type_synonym path = string
type_synonym bytes = string

datatype js_error = JsError (ecode: "string option") (eerrno: "int option") (emsg: string)

definition notFoundError :: "path \<Rightarrow> js_error" where
  "notFoundError filePath =
     JsError (Some ''ENOENT'') (Some (- 2)) (''ENOENT, '' @ filePath @ '' not found'')"

definition notDirError :: js_error where
  "notDirError = JsError (Some ''ENOTDIR'') (Some (- 20)) ''ENOTDIR, not a directory''"

definition isDirError :: "path \<Rightarrow> string \<Rightarrow> js_error" where
  "isDirError filename op =
     JsError (Some ''EISDIR'') (Some (- 21))
       (''EISDIR: illegal operation on a directory, '' @ op @ '', '' @ filename)"

definition accessError :: "path \<Rightarrow> js_error" where
  "accessError filePath =
     JsError (Some ''EACCES'') (Some (- 13))
       (''EACCES, permission denies, access '' @ [CHR 0x27] @ filePath @ [CHR 0x27])"

definition TypeError :: "string \<Rightarrow> js_error" where
  "TypeError m = JsError None None m"

section \<open>Effects: host calls over an explicit world\<close>

text \<open>
  A synchronous call runs on the state \<open>'w\<close> of the real filesystem and either throws
  (\<open>Inl\<close>) or returns (\<open>Inr\<close>), leaving a new state. A read of the blob cache by
  \<open>pkglock\<close> looks at the state without changing it.
\<close>

type_synonym ('w, 'a) io = "'w \<Rightarrow> (js_error + 'a) \<times> 'w"
type_synonym ('w, 'a) rd = "'w \<Rightarrow> js_error + 'a"

definition ret :: "'a \<Rightarrow> ('w, 'a) io" where
  "ret x = (\<lambda>w. (Inr x, w))"

definition throw :: "js_error \<Rightarrow> ('w, 'a) io" where
  "throw e = (\<lambda>w. (Inl e, w))"

definition bind :: "('w, 'a) io \<Rightarrow> ('a \<Rightarrow> ('w, 'b) io) \<Rightarrow> ('w, 'b) io" where
  "bind m f = (\<lambda>w. case m w of (Inl e, w') \<Rightarrow> (Inl e, w') | (Inr x, w') \<Rightarrow> f x w')"

definition try_catch :: "('w, 'a) io \<Rightarrow> (js_error \<Rightarrow> ('w, 'a) io) \<Rightarrow> ('w, 'a) io" where
  "try_catch m h = (\<lambda>w. case m w of (Inl e, w') \<Rightarrow> h e w' | (Inr x, w') \<Rightarrow> (Inr x, w'))"

definition lift_rd :: "('w, 'a) rd \<Rightarrow> ('w, 'a) io" where
  "lift_rd f = (\<lambda>w. (f w, w))"

text \<open>
  An asynchronous call either throws synchronously (\<open>Inl\<close>) or returns, and the
  completions it hands to its callback are listed in the order they are delivered: \<open>Inl\<close>
  is \<open>cb(err)\<close>, \<open>Inr\<close> is \<open>cb(null, value)\<close>. A host primitive completes exactly
  once, so its model is an \<open>io\<close> whose outcome is that completion.
\<close>

type_synonym 'a cbs = "(js_error + 'a) list"

definition once :: "('w, 'a) io \<Rightarrow> ('w, 'a cbs) io" where
  "once m = (\<lambda>w. case m w of (c, w') \<Rightarrow> (Inr [c], w'))"

definition deliver :: "(js_error + 'a) \<Rightarrow> ('w, 'a cbs) io" where
  "deliver c = ret [c]"

section \<open>The resolver's answers\<close>

text \<open>
  \<open>pkglock.resolve\<close> answers \<open>null\<close> (the path is not tracked), \<open>false\<close> (tracked
  but missing) or an object whose properties the overlay reads: \<open>isDir\<close>, \<open>isFile\<close>,
  the keys of \<open>dir\<close>, and \<open>resolvedPath\<close>.
\<close>

record resolved =
  isDir :: bool
  isFile :: bool
  dir :: "string list"
  resolvedPath :: path

datatype resolution = RNull | RFalse | RObj resolved

record stats =
  st_size :: nat
  st_mode :: nat
  st_isDirectory :: bool
  cachePath :: path

text \<open>
  The module \<open>pkglock.js\<close> itself is a parameter: its resolver is a function of the path
  alone, its stat and read services look at the blob cache.
\<close>

record 'w pkglock =
  pk_resolve :: "path \<Rightarrow> resolution"
  pk_statSync :: "resolved \<Rightarrow> bool \<Rightarrow> ('w, stats option) rd"
  pk_stat :: "resolved \<Rightarrow> bool \<Rightarrow> ('w, stats option) rd"
  pk_readSync :: "resolved \<Rightarrow> ('w, bytes) rd"
  pk_read :: "resolved \<Rightarrow> ('w, bytes) rd"

section \<open>stat and lstat\<close>

definition statSync_patch ::
  "'w pkglock \<Rightarrow> (path \<Rightarrow> ('w, stats) io) \<Rightarrow> path \<Rightarrow> ('w, stats) io" where
  "statSync_patch pk statSync p =
     try_catch (statSync p) (\<lambda>err.
       if ecode err \<noteq> Some ''ENOENT'' then throw err
       else (case pk_resolve pk p of
               RObj resolved \<Rightarrow>
                 bind (lift_rd (pk_statSync pk resolved False)) (\<lambda>stats.
                   case stats of None \<Rightarrow> throw (notFoundError p) | Some s \<Rightarrow> ret s)
             | _ \<Rightarrow> throw (notFoundError p)))"

definition lstatSync_patch ::
  "'w pkglock \<Rightarrow> (path \<Rightarrow> ('w, stats) io) \<Rightarrow> path \<Rightarrow> ('w, stats) io" where
  "lstatSync_patch pk lstatSync p =
     try_catch (lstatSync p) (\<lambda>err.
       if ecode err \<noteq> Some ''ENOENT'' then throw err
       else (case pk_resolve pk p of
               RObj resolved \<Rightarrow>
                 bind (lift_rd (pk_statSync pk resolved False)) (\<lambda>stats.
                   case stats of None \<Rightarrow> throw (notFoundError p) | Some s \<Rightarrow> ret s)
             | _ \<Rightarrow> throw (notFoundError p)))"

text \<open>
  The asynchronous forms consult the resolver on every error of the real call. With a
  falsy stat they schedule \<open>cb(error)\<close> for the next tick and call \<open>cb(null, stat)\<close>
  at once, so the callback value is optional.
\<close>

definition stat_patch ::
  "'w pkglock \<Rightarrow> (path \<Rightarrow> ('w, stats) io) \<Rightarrow> path \<Rightarrow> ('w, stats option cbs) io" where
  "stat_patch pk stat p = (\<lambda>w.
     case stat p w of
       (Inr s, w') \<Rightarrow> (Inr [Inr (Some s)], w')
     | (Inl err, w') \<Rightarrow>
         (case pk_resolve pk p of
            RObj resolved \<Rightarrow>
              (case pk_stat pk resolved False w' of
                 Inl e \<Rightarrow> (Inr [Inl e], w')
               | Inr None \<Rightarrow> (Inr [Inr None, Inl (notFoundError p)], w')
               | Inr (Some s) \<Rightarrow> (Inr [Inr (Some s)], w'))
          | _ \<Rightarrow> (Inr [Inl (notFoundError p)], w')))"

definition lstat_patch ::
  "'w pkglock \<Rightarrow> (path \<Rightarrow> ('w, stats) io) \<Rightarrow> path \<Rightarrow> ('w, stats option cbs) io" where
  "lstat_patch pk lstat p = (\<lambda>w.
     case lstat p w of
       (Inr s, w') \<Rightarrow> (Inr [Inr (Some s)], w')
     | (Inl err, w') \<Rightarrow>
         (case pk_resolve pk p of
            RObj resolved \<Rightarrow>
              (case pk_stat pk resolved False w' of
                 Inl e \<Rightarrow> (Inr [Inl e], w')
               | Inr None \<Rightarrow> (Inr [Inr None, Inl (notFoundError p)], w')
               | Inr (Some s) \<Rightarrow> (Inr [Inr (Some s)], w'))
          | _ \<Rightarrow> (Inr [Inl (notFoundError p)], w')))"

section \<open>realpath, exists\<close>

definition statSyncNoException_patch ::
  "'w pkglock \<Rightarrow> (path \<Rightarrow> ('w, stats option) io) \<Rightarrow> path \<Rightarrow> ('w, stats option) io" where
  "statSyncNoException_patch pk statSyncNoException p =
     bind (statSyncNoException p) (\<lambda>r.
       case r of
         Some s \<Rightarrow> ret (Some s)
       | None \<Rightarrow>
           (case pk_resolve pk p of
              RObj resolved \<Rightarrow> lift_rd (pk_statSync pk resolved False)
            | _ \<Rightarrow> ret None))"

definition realpathSync_patch ::
  "'w pkglock \<Rightarrow> (path \<Rightarrow> ('w, path) io) \<Rightarrow> path \<Rightarrow> ('w, path) io" where
  "realpathSync_patch pk realpathSync p =
     try_catch (realpathSync p) (\<lambda>err.
       if ecode err \<noteq> Some ''ENOENT'' then throw err
       else (case pk_resolve pk p of
               RObj resolved \<Rightarrow> ret (resolvedPath resolved)
             | _ \<Rightarrow> throw (notFoundError p)))"

text \<open>
  The asynchronous \<open>realpath\<close>, called with its three arguments; the resolved path is
  handed to the callback on the next tick.
\<close>

definition realpath_patch ::
  "'w pkglock \<Rightarrow> (path \<Rightarrow> ('w, path) io) \<Rightarrow> path \<Rightarrow> ('w, path cbs) io" where
  "realpath_patch pk realpath p = (\<lambda>w.
     case realpath p w of
       (Inr rp, w') \<Rightarrow> (Inr [Inr rp], w')
     | (Inl err, w') \<Rightarrow>
         if ecode err \<noteq> Some ''ENOENT'' then (Inr [Inl err], w')
         else (case pk_resolve pk p of
                 RObj resolved \<Rightarrow> (Inr [Inr (resolvedPath resolved)], w')
               | _ \<Rightarrow> (Inr [Inl (notFoundError p)], w')))"

text \<open>\<open>!!resolved\<close>: \<open>null\<close> and \<open>false\<close> are falsy, an object is truthy.\<close>

fun truthy :: "resolution \<Rightarrow> bool" where
  "truthy (RObj r) = True"
| "truthy r = False"

definition exists_patch ::
  "'w pkglock \<Rightarrow> (path \<Rightarrow> ('w, bool) io) \<Rightarrow> path \<Rightarrow> ('w, bool cbs) io" where
  "exists_patch pk exists p =
     (case pk_resolve pk p of
        RNull \<Rightarrow> once (exists p)
      | resolved \<Rightarrow> deliver (Inr (truthy resolved)))"

definition existsSync_patch ::
  "'w pkglock \<Rightarrow> (path \<Rightarrow> ('w, bool) io) \<Rightarrow> path \<Rightarrow> ('w, bool) io" where
  "existsSync_patch pk existsSync p =
     (case pk_resolve pk p of
        RNull \<Rightarrow> existsSync p
      | resolved \<Rightarrow> ret (truthy resolved))"

section \<open>The module loader's probes\<close>

text \<open>
  \<open>path.basename\<close> of the host, for POSIX paths: trailing separators are dropped and
  the characters after the last remaining separator are returned.
\<close>

definition basename :: "path \<Rightarrow> string" where
  "basename p =
     rev (takeWhile (\<lambda>c. c \<noteq> CHR ''/'') (dropWhile (\<lambda>c. c = CHR ''/'') (rev p)))"

text \<open>
  \<open>internalModuleReadJSON\<close> returns a string or \<open>undefined\<close> (\<open>None\<close>);
  \<open>toString('utf8')\<close> of a buffer is the total function \<open>utf8\<close>.
\<close>

definition internalModuleReadJSON_patch ::
  "'w pkglock \<Rightarrow> (bytes \<Rightarrow> string) \<Rightarrow> (path \<Rightarrow> ('w, string option) io) \<Rightarrow> path
     \<Rightarrow> ('w, string option) io" where
  "internalModuleReadJSON_patch pk utf8 internalModuleReadJSON p =
     (case pk_resolve pk p of
        RNull \<Rightarrow> internalModuleReadJSON p
      | RFalse \<Rightarrow> ret None
      | RObj resolved \<Rightarrow>
          if isDir resolved then ret None
          else try_catch
                 (bind (lift_rd (pk_readSync pk resolved)) (\<lambda>data. ret (Some (utf8 data))))
                 (\<lambda>err. ret None))"

definition internalModuleStat_patch ::
  "'w pkglock \<Rightarrow> (path \<Rightarrow> ('w, int) io) \<Rightarrow> path \<Rightarrow> ('w, int) io" where
  "internalModuleStat_patch pk internalModuleStat p =
     (case pk_resolve pk p of
        RNull \<Rightarrow> internalModuleStat p
      | RObj resolved \<Rightarrow>
          if isFile resolved then ret 0
          else if isDir resolved then ret 1
          else ret (- 34)
      | RFalse \<Rightarrow>
          if basename p = ''node_modules'' then ret 1 else ret (- 34))"

section \<open>access\<close>

definition F_OK :: nat where "F_OK = 0"
definition R_OK :: nat where "R_OK = 4"
definition W_OK :: nat where "W_OK = 2"
definition X_OK :: nat where "X_OK = 1"

text \<open>\<open>if (mode == null) { mode = fs.constants.F_OK }\<close>, and its asynchronous twin.\<close>

definition default_mode :: "nat option \<Rightarrow> nat" where
  "default_mode mode = (case mode of None \<Rightarrow> F_OK | Some m \<Rightarrow> m)"

text \<open>
  The mode argument of the asynchronous form is \<open>None\<close> when the callback stands in its
  place; the original is called with the arguments as given on an untracked path, and
  with the defaulted mode on a cache path.
\<close>

definition access_patch ::
  "'w pkglock \<Rightarrow> (path \<Rightarrow> nat option \<Rightarrow> ('w, unit) io) \<Rightarrow> path \<Rightarrow> nat option
     \<Rightarrow> ('w, unit cbs) io" where
  "access_patch pk access p mode =
     (case pk_resolve pk p of
        RNull \<Rightarrow> once (access p mode)
      | RFalse \<Rightarrow> deliver (Inl (notFoundError p))
      | RObj resolved \<Rightarrow>
          (let mode' = default_mode mode in
           if isDir resolved then
             (if mode' = F_OK \<or> R_OK AND mode' \<noteq> 0 then deliver (Inr ())
              else deliver (Inl (accessError p)))
           else (\<lambda>w. case pk_stat pk resolved False w of
                        Inl e \<Rightarrow> (Inr [Inl e], w)
                      | Inr None \<Rightarrow> (Inr [Inl (notFoundError p)], w)
                      | Inr (Some stat) \<Rightarrow> once (access (cachePath stat) (Some mode')) w)))"

text \<open>
  The synchronous form ends in \<open>fs.accessSync(stat.cachePath, mode)\<close>, which is the
  patched function itself: the recursion ends when the cache path is untracked, and the
  model returns \<open>None\<close> if it never does.
\<close>

partial_function (option) accessSync_patch ::
  "'w pkglock \<Rightarrow> (path \<Rightarrow> nat option \<Rightarrow> ('w, unit) io) \<Rightarrow> path \<Rightarrow> nat option \<Rightarrow> 'w
     \<Rightarrow> ((js_error + unit) \<times> 'w) option" where
  "accessSync_patch pk accessSync p mode w =
     (case pk_resolve pk p of
        RNull \<Rightarrow> Some (accessSync p mode w)
      | RFalse \<Rightarrow> Some (Inl (notFoundError p), w)
      | RObj resolved \<Rightarrow>
          (let mode' = default_mode mode in
           if isDir resolved then
             (if mode' = F_OK \<or> R_OK AND mode' \<noteq> 0 then Some (Inr (), w)
              else Some (Inl (accessError p), w))
           else (case pk_statSync pk resolved False w of
                   Inl e \<Rightarrow> Some (Inl e, w)
                 | Inr None \<Rightarrow> Some (Inl (notFoundError p), w)
                 | Inr (Some stat) \<Rightarrow> accessSync_patch pk accessSync (cachePath stat) (Some mode') w)))"

section \<open>readFile\<close>

text \<open>
  The options argument: \<open>undefined\<close>, \<open>null\<close>, a string, an object with its
  \<open>encoding\<close> property, a function (the callback in the options' place), or a value of
  another type with its truthiness. The data is a buffer, or a string once decoded;
  \<open>toString(encoding)\<close> of the host throws on an unknown encoding.
\<close>

datatype js_options =
  OUndefined | ONull | OString string | OObject "string option" | OFunction | OOther bool

datatype js_data = Buffer bytes | Str string

fun options_truthy :: "js_options \<Rightarrow> bool" where
  "options_truthy OUndefined = False"
| "options_truthy ONull = False"
| "options_truthy (OString s) = (s \<noteq> [])"
| "options_truthy (OObject e) = True"
| "options_truthy OFunction = True"
| "options_truthy (OOther b) = b"

definition decode ::
  "(bytes \<Rightarrow> string \<Rightarrow> js_error + string) \<Rightarrow> string option \<Rightarrow> bytes \<Rightarrow> js_error + js_data" where
  "decode toString encoding data =
     (case encoding of
        None \<Rightarrow> Inr (Buffer data)
      | Some enc \<Rightarrow>
          if enc = [] then Inr (Buffer data)
          else (case toString data enc of Inl e \<Rightarrow> Inl e | Inr s \<Rightarrow> Inr (Str s)))"

definition readFileSync_patch ::
  "'w pkglock \<Rightarrow> (bytes \<Rightarrow> string \<Rightarrow> js_error + string)
     \<Rightarrow> (path \<Rightarrow> js_options \<Rightarrow> ('w, js_data) io) \<Rightarrow> path \<Rightarrow> js_options \<Rightarrow> ('w, js_data) io" where
  "readFileSync_patch pk toString readFileSync p options =
     (case pk_resolve pk p of
        RNull \<Rightarrow> readFileSync p options
      | RFalse \<Rightarrow> throw (notFoundError p)
      | RObj resolved \<Rightarrow>
          if isDir resolved then throw (isDirError p ''read'')
          else bind
                 (if \<not> options_truthy options then ret None
                  else (case options of
                          OString s \<Rightarrow> ret (Some s)
                        | OObject e \<Rightarrow> ret e
                        | _ \<Rightarrow> throw (TypeError ''Bad arguments'')))
                 (\<lambda>encoding.
                    bind (lift_rd (pk_readSync pk resolved)) (\<lambda>data.
                      case decode toString encoding data of
                        Inl e \<Rightarrow> throw e
                      | Inr d \<Rightarrow> ret d)))"

text \<open>
  In the asynchronous form the options are checked before the resolution, and a
  \<open>toString\<close> that throws inside the promise's handler reaches no callback.
\<close>

definition readFile_patch ::
  "'w pkglock \<Rightarrow> (bytes \<Rightarrow> string \<Rightarrow> js_error + string)
     \<Rightarrow> (path \<Rightarrow> js_options \<Rightarrow> ('w, js_data) io) \<Rightarrow> path \<Rightarrow> js_options
     \<Rightarrow> ('w, js_data cbs) io" where
  "readFile_patch pk toString readFile p options =
     (case pk_resolve pk p of
        RNull \<Rightarrow> once (readFile p options)
      | resolved \<Rightarrow>
          bind
            (case options of
               OFunction \<Rightarrow> ret None
             | OString s \<Rightarrow> ret (Some s)
             | ONull \<Rightarrow> ret None
             | OUndefined \<Rightarrow> ret None
             | OOther b \<Rightarrow> throw (TypeError ''badarg'')
             | OObject e \<Rightarrow> ret e)
            (\<lambda>encoding.
               case resolved of
                 RObj r \<Rightarrow>
                   if isDir r then deliver (Inl (isDirError p ''read''))
                   else (\<lambda>w. case pk_read pk r w of
                                Inl e \<Rightarrow> (Inr [Inl e], w)
                              | Inr data \<Rightarrow>
                                  (case decode toString encoding data of
                                     Inl e \<Rightarrow> (Inr [], w)
                                   | Inr d \<Rightarrow> (Inr [Inr d], w)))
               | _ \<Rightarrow> deliver (Inl (notFoundError p))))"

section \<open>readdir\<close>

text \<open>\<open>[...new Set(files)]\<close>: the first occurrence of each name, in order.\<close>

definition dedupe :: "string list \<Rightarrow> string list" where
  "dedupe files = rev (remdups (rev files))"

definition readdirSync_patch ::
  "'w pkglock \<Rightarrow> (path \<Rightarrow> ('w, string list) io) \<Rightarrow> path \<Rightarrow> ('w, string list) io" where
  "readdirSync_patch pk readdirSync p =
     bind
       (try_catch (bind (readdirSync p) (\<lambda>files. ret (files, True)))
          (\<lambda>err. if ecode err \<noteq> Some ''ENOENT'' then throw err else ret ([], False)))
       (\<lambda>(files, found).
          case pk_resolve pk p of
            RObj resolved \<Rightarrow>
              if isDir resolved then ret (dedupe (files @ dir resolved))
              else if \<not> found then throw (notFoundError p)
              else throw notDirError
          | _ \<Rightarrow>
              if \<not> found then throw (notFoundError p)
              else ret (dedupe files))"

definition readdir_patch ::
  "'w pkglock \<Rightarrow> (path \<Rightarrow> ('w, string list) io) \<Rightarrow> path \<Rightarrow> ('w, string list cbs) io" where
  "readdir_patch pk readdir p = (\<lambda>w.
     case readdir p w of (c, w') \<Rightarrow>
       (case (case c of
                Inr files \<Rightarrow> Inr (files, True)
              | Inl err \<Rightarrow> if ecode err \<noteq> Some ''ENOENT'' then Inl err else Inr ([], False)) of
          Inl err \<Rightarrow> (Inr [Inl err], w')
        | Inr (files, found) \<Rightarrow>
            (case pk_resolve pk p of
               RObj resolved \<Rightarrow>
                 if isDir resolved then (Inr [Inr (dedupe (files @ dir resolved))], w')
                 else if \<not> found then (Inr [Inl (notFoundError p)], w')
                 else (Inr [Inl notDirError], w')
             | _ \<Rightarrow>
                 if \<not> found then (Inr [Inl (notFoundError p)], w')
                 else (Inr [Inr (dedupe files)], w'))))"

text \<open>The encoding a caller asks for through the options argument, if any.\<close>

fun requested_encoding :: "js_options \<Rightarrow> string option" where
  "requested_encoding (OString s) = Some s"
| "requested_encoding (OObject e) = e"
| "requested_encoding opts = None"

section \<open>The host functions the overlay calls by name\<close>

text \<open>
  Besides the captured original of each patched function, the overlay calls
  \<open>fs.copyFileSync\<close>, \<open>fs.chmodSync\<close>, \<open>fs.copyFile\<close> and \<open>fs.writeFile\<close>, which
  are not patched, and \<open>mkdirp\<close>; the data of \<open>writeFile\<close> is \<open>None\<close> when the
  overlay passes \<open>undefined\<close>, the mode of \<open>mkdirp\<close> is \<open>None\<close> when none is given.
\<close>

record 'w host =
  fs_copyFileSync :: "path \<Rightarrow> path \<Rightarrow> ('w, unit) io"
  fs_chmodSync :: "path \<Rightarrow> nat \<Rightarrow> ('w, unit) io"
  fs_copyFile :: "path \<Rightarrow> path \<Rightarrow> ('w, unit) io"
  fs_writeFile :: "path \<Rightarrow> js_data option \<Rightarrow> nat \<Rightarrow> ('w, unit) io"
  mkdirp :: "path \<Rightarrow> nat option \<Rightarrow> ('w, unit) io"

text \<open>
  \<open>path.dirname\<close> of the host, for POSIX paths: the scan runs from the end down to
  index 1, passes the trailing separators and the last segment, and cuts at the
  separator it meets then.
\<close>

definition dirname :: "path \<Rightarrow> path" where
  "dirname p =
     (if p = [] then ''.''
      else (let hasRoot = (hd p = CHR ''/'');
                scan = dropWhile (\<lambda>c. c \<noteq> CHR ''/'') (dropWhile (\<lambda>c. c = CHR ''/'') (rev (tl p)))
            in if scan = [] then (if hasRoot then ''/'' else ''.'')
               else if hasRoot \<and> length scan = 1 then ''//''
               else take (length scan) p))"

text \<open>
  Running a callback on each completion of an asynchronous call, in the order of
  delivery; the completions the callback hands on are collected.
\<close>

fun each :: "'a cbs \<Rightarrow> ((js_error + 'a) \<Rightarrow> ('w, 'b cbs) io) \<Rightarrow> ('w, 'b cbs) io" where
  "each [] k = ret []"
| "each (c # cs) k = bind (k c) (\<lambda>xs. bind (each cs k) (\<lambda>ys. ret (xs @ ys)))"

definition then_cb ::
  "('w, 'a cbs) io \<Rightarrow> ((js_error + 'a) \<Rightarrow> ('w, 'b cbs) io) \<Rightarrow> ('w, 'b cbs) io" where
  "then_cb m k = bind m (\<lambda>cs. each cs k)"

section \<open>chmod\<close>

text \<open>
  On a map file \<open>chmod\<close> creates the parent directory, reads the path through the
  patched \<open>fs.readFile\<close> and writes the data back with the mode as an option of
  \<open>fs.writeFile\<close>. Its error branches call \<open>cb(err)\<close> and go on.
\<close>

definition chmod_patch ::
  "'w pkglock \<Rightarrow> 'w host \<Rightarrow> (bytes \<Rightarrow> string \<Rightarrow> js_error + string)
     \<Rightarrow> (path \<Rightarrow> js_options \<Rightarrow> ('w, js_data) io)
     \<Rightarrow> (path \<Rightarrow> nat \<Rightarrow> ('w, unit) io) \<Rightarrow> path \<Rightarrow> nat \<Rightarrow> ('w, unit cbs) io" where
  "chmod_patch pk h toString readFile chmod p mode =
     (case pk_resolve pk p of
        RNull \<Rightarrow> once (chmod p mode)
      | RFalse \<Rightarrow> throw (notFoundError p)
      | RObj resolved \<Rightarrow>
          if isDir resolved then once (mkdirp h p (Some mode))
          else then_cb (once (mkdirp h (dirname p) None)) (\<lambda>c1.
                 bind (case c1 of Inl err \<Rightarrow> deliver (Inl err) | Inr u \<Rightarrow> ret []) (\<lambda>d1.
                 bind (then_cb (readFile_patch pk toString readFile p OFunction) (\<lambda>c2.
                         bind (case c2 of Inl err \<Rightarrow> deliver (Inl err) | Inr data \<Rightarrow> ret []) (\<lambda>d2.
                         bind (once (fs_writeFile h p
                                       (case c2 of Inl err \<Rightarrow> None | Inr data \<Rightarrow> Some data) mode))
                           (\<lambda>d3. ret (d2 @ d3)))))
                   (\<lambda>rest. ret (d1 @ rest)))))"

section \<open>open\<close>

datatype js_flags = FStr string | FNum nat | FUndefined

definition openSync_patch ::
  "'w pkglock \<Rightarrow> 'w host \<Rightarrow> (path \<Rightarrow> js_flags \<Rightarrow> nat option \<Rightarrow> ('w, nat) io)
     \<Rightarrow> path \<Rightarrow> js_flags \<Rightarrow> nat option \<Rightarrow> ('w, nat) io" where
  "openSync_patch pk h openSync p flags mode =
     (case pk_resolve pk p of
        RNull \<Rightarrow> openSync p flags mode
      | RFalse \<Rightarrow> throw (notFoundError p)
      | RObj resolved \<Rightarrow>
          if isDir resolved then throw (isDirError p ''read'')
          else bind (lift_rd (pk_statSync pk resolved True)) (\<lambda>stat.
                 case stat of
                   None \<Rightarrow> throw (notFoundError p)
                 | Some st \<Rightarrow>
                     if flags = FStr ''r'' then openSync (cachePath st) flags mode
                     else bind (fs_copyFileSync h (cachePath st) p) (\<lambda>u.
                          bind (fs_chmodSync h p 493) (\<lambda>u.
                          openSync p flags mode))))"

text \<open>
  The asynchronous \<open>open\<close> calls the real \<open>open\<close> on the requested path first and
  consults the resolver only when that fails with ENOENT. Its \<open>fs.chmod\<close> is the
  patched \<open>chmod\<close>.
\<close>

definition open_patch ::
  "'w pkglock \<Rightarrow> 'w host \<Rightarrow> (bytes \<Rightarrow> string \<Rightarrow> js_error + string)
     \<Rightarrow> (path \<Rightarrow> js_options \<Rightarrow> ('w, js_data) io)
     \<Rightarrow> (path \<Rightarrow> nat \<Rightarrow> ('w, unit) io)
     \<Rightarrow> (path \<Rightarrow> js_flags \<Rightarrow> nat option \<Rightarrow> ('w, nat) io)
     \<Rightarrow> path \<Rightarrow> js_flags \<Rightarrow> nat option \<Rightarrow> ('w, nat cbs) io" where
  "open_patch pk h toString readFile chmod open p flags mode =
     then_cb (once (open p flags mode)) (\<lambda>c.
       case c of
         Inr fd \<Rightarrow> deliver (Inr fd)
       | Inl err \<Rightarrow>
           if ecode err \<noteq> Some ''ENOENT'' then deliver (Inl err)
           else (case pk_resolve pk p of
                   RObj resolved \<Rightarrow>
                     if isDir resolved then deliver (Inl (isDirError p ''read''))
                     else (\<lambda>w. case pk_stat pk resolved True w of
                                  Inl e \<Rightarrow> (Inr [Inl e], w)
                                | Inr None \<Rightarrow> (Inr [Inl (notFoundError p)], w)
                                | Inr (Some st) \<Rightarrow>
                                    (if flags = FStr ''r'' then once (open (cachePath st) flags mode)
                                     else then_cb (once (fs_copyFile h (cachePath st) p)) (\<lambda>c1.
                                            case c1 of
                                              Inl err \<Rightarrow> deliver (Inl err)
                                            | Inr u \<Rightarrow>
                                                then_cb (chmod_patch pk h toString readFile chmod p 493)
                                                  (\<lambda>c2. case c2 of
                                                           Inl err \<Rightarrow> deliver (Inl err)
                                                         | Inr u \<Rightarrow> once (open p flags mode)))) w)
                 | _ \<Rightarrow> deliver (Inl (notFoundError p))))"

section \<open>Streams\<close>

text \<open>
  The options of a stream constructor are \<open>None\<close> when falsy, else they carry the
  \<open>flags\<close> property. The stream the host returns is opaque.
\<close>

definition createReadStream_patch ::
  "'w pkglock \<Rightarrow> 'w host \<Rightarrow> (path \<Rightarrow> js_flags option \<Rightarrow> ('w, 's) io)
     \<Rightarrow> path \<Rightarrow> js_flags option \<Rightarrow> ('w, 's) io" where
  "createReadStream_patch pk h createReadStream p opts =
     (case pk_resolve pk p of
        RObj resolved \<Rightarrow>
          if isDir resolved then createReadStream p opts
          else bind (lift_rd (pk_statSync pk resolved True)) (\<lambda>stat.
                 case stat of
                   None \<Rightarrow> createReadStream p opts
                 | Some st \<Rightarrow>
                     if opts = Some (FStr ''r'') then createReadStream (cachePath st) opts
                     else bind (fs_copyFileSync h (cachePath st) p) (\<lambda>u.
                          bind (fs_chmodSync h p 493) (\<lambda>u.
                          createReadStream p opts)))
      | _ \<Rightarrow> createReadStream p opts)"

definition createWriteStream_patch ::
  "'w pkglock \<Rightarrow> 'w host \<Rightarrow> (path \<Rightarrow> js_flags option \<Rightarrow> ('w, 's) io)
     \<Rightarrow> path \<Rightarrow> js_flags option \<Rightarrow> ('w, 's) io" where
  "createWriteStream_patch pk h createWriteStream p opts =
     (case pk_resolve pk p of
        RObj resolved \<Rightarrow>
          if isDir resolved then createWriteStream p opts
          else bind (lift_rd (pk_statSync pk resolved True)) (\<lambda>stat.
                 case stat of
                   None \<Rightarrow> createWriteStream p opts
                 | Some st \<Rightarrow>
                     bind (fs_copyFileSync h (cachePath st) p) (\<lambda>u.
                     bind (fs_chmodSync h p 493) (\<lambda>u.
                     createWriteStream p opts)))
      | _ \<Rightarrow> createWriteStream p opts)"

section \<open>dlopen and the \<open>.node\<close> extension\<close>

definition overrideAPISync ::
  "'w pkglock \<Rightarrow> string \<Rightarrow> (path \<Rightarrow> ('w, 'a) io) \<Rightarrow> path \<Rightarrow> ('w, 'a) io" where
  "overrideAPISync pk name old p =
     (case pk_resolve pk p of
        RNull \<Rightarrow> old p
      | RFalse \<Rightarrow> throw (notFoundError p)
      | RObj resolved \<Rightarrow>
          if isDir resolved then throw (isDirError p name)
          else bind (lift_rd (pk_statSync pk resolved True)) (\<lambda>stat.
                 case stat of
                   None \<Rightarrow> throw (notFoundError p)
                 | Some st \<Rightarrow> old (cachePath st)))"

section \<open>The installer: sealing the lockfile\<close>

text \<open>
  An integrity value of \<open>ssri\<close> is the text \<open>algorithm-digest\<close>, the digest in
  base64. The hash functions of the host are a parameter: \<open>crypto.createHash\<close> throws
  for an algorithm it does not support (\<open>None\<close>), else it maps the data to the digest.
  The \<open>lockfile_integrity\<close> property of the persisted seal is \<open>undefined\<close> or a
  string, which parses to an integrity or to none.
\<close>

type_synonym digest = string

datatype integrity = Integrity (algorithm: string) (digest: digest)

datatype sri = SriUndefined | SriString "integrity option"

definition digestError :: "string \<Rightarrow> js_error" where
  "digestError alg = JsError None None ''Digest method not supported''"

definition dataError :: js_error where
  "dataError = TypeError ''The data argument must be of type string''"

text \<open>\<open>ssri.fromData\<close> hashes with sha512.\<close>

definition ssri_fromData ::
  "(string \<Rightarrow> (string \<Rightarrow> digest) option) \<Rightarrow> string option \<Rightarrow> js_error + integrity" where
  "ssri_fromData hash data =
     (case hash ''sha512'' of
        None \<Rightarrow> Inl (digestError ''sha512'')
      | Some h \<Rightarrow>
          (case data of
             None \<Rightarrow> Inl dataError
           | Some d \<Rightarrow> Inr (Integrity ''sha512'' (h d))))"

text \<open>
  \<open>ssri.checkData\<close> parses the integrity, which throws on \<open>undefined\<close>, and answers
  false when the string holds no hash; else it hashes the data with the algorithm of
  the integrity, which throws for an unsupported algorithm and on \<open>undefined\<close> data,
  and compares the digests. With the option \<open>error\<close> it throws where it would answer
  false.
\<close>

definition ssri_checkData ::
  "(string \<Rightarrow> (string \<Rightarrow> digest) option) \<Rightarrow> string option \<Rightarrow> sri \<Rightarrow> js_error + bool" where
  "ssri_checkData hash data integrity =
     (case integrity of
        SriUndefined \<Rightarrow> Inl (TypeError ''Cannot read property algorithm of undefined'')
      | SriString None \<Rightarrow> Inr False
      | SriString (Some i) \<Rightarrow>
          (case hash (algorithm i) of
             None \<Rightarrow> Inl (digestError (algorithm i))
           | Some h \<Rightarrow>
               (case data of
                  None \<Rightarrow> Inl dataError
                | Some d \<Rightarrow> Inr (h d = digest i))))"

text \<open>
  The files of a project that the installer reads and writes, as the JSON values they
  hold: \<open>package-lock.json\<close>, \<open>npm-shrinkwrap.json\<close> and
  \<open>node_modules/.pkglock-hash\<close>, each absent or present. A lockfile \<open>'l\<close> comes with
  its \<open>JSON.stringify\<close> text and the truthiness of its \<open>lockfileVersion\<close>.
\<close>

record pkglock_hash =
  lockfile_integrity :: sri

record 'l files =
  package_lock :: "'l option"
  npm_shrinkwrap :: "'l option"
  hash_file :: "pkglock_hash option"

record 'l env =
  stringify :: "'l \<Rightarrow> string"
  lockfileVersion :: "'l \<Rightarrow> bool"
  hash :: "string \<Rightarrow> (string \<Rightarrow> digest) option"
  npm :: "'l files \<Rightarrow> 'l files"
  lockVerify :: "'l files \<Rightarrow> bool"
  opts_force :: bool

text \<open>
  The fields of an \<open>Installer\<close> that the seal touches; \<open>timings\<close> lists the stages
  that \<open>timedStage\<close> has run, oldest first.
\<close>

record 'l installer =
  shrinkwrap :: "'l option"
  pkglockHash :: "pkglock_hash option"
  validLockHash :: bool
  force :: bool
  timings :: "string list"

definition constructor :: "'l env \<Rightarrow> 'l installer" where
  "constructor e =
     \<lparr>shrinkwrap = None, pkglockHash = None, validLockHash = False, force = opts_force e,
      timings = []\<rparr>"

definition timedStage :: "string \<Rightarrow> 'l installer \<Rightarrow> 'l installer" where
  "timedStage name this = this\<lparr>timings := timings this @ [name]\<rparr>"

text \<open>
  \<open>npmInstall\<close> lets npm rewrite the lockfile and reads \<open>package-lock.json\<close> again,
  which throws when the file is not there.
\<close>

definition npmInstall :: "'l env \<Rightarrow> 'l installer \<Rightarrow> ('l files, 'l installer) io" where
  "npmInstall e this = (\<lambda>fs.
     let fs' = npm e fs in
     case package_lock fs' of
       None \<Rightarrow> (Inl (JsError (Some ''ENOENT'') (Some (- 2)) ''package-lock.json''), fs')
     | Some l \<Rightarrow> (Inr (this\<lparr>shrinkwrap := Some l\<rparr>), fs'))"

definition lock_missing :: "'l env \<Rightarrow> 'l installer \<Rightarrow> bool" where
  "lock_missing e this =
     (case shrinkwrap this of None \<Rightarrow> True | Some l \<Rightarrow> \<not> lockfileVersion e l)"

text \<open>
  \<open>checkLock\<close>: the only assignment to \<open>validLockHash\<close> sets it to false.
  \<open>JSON.stringify\<close> of a lockfile that is not there is \<open>undefined\<close>.
\<close>

definition checkLock :: "'l env \<Rightarrow> 'l installer \<Rightarrow> ('l files, 'l installer) io" where
  "checkLock e this =
     bind (case pkglockHash this of
             None \<Rightarrow> ret this
           | Some h \<Rightarrow>
               (case ssri_checkData (hash e) (map_option (stringify e) (shrinkwrap this))
                       (lockfile_integrity h) of
                  Inl err \<Rightarrow> throw err
                | Inr ok \<Rightarrow> if \<not> ok then ret (this\<lparr>validLockHash := False\<rparr>) else ret this))
       (\<lambda>this1.
          bind (if lock_missing e this1 then npmInstall e this1 else ret this1)
            (\<lambda>this2.
               if lock_missing e this2
               then throw (JsError None None
                      ''npm install to generate package-lock.json failed. This is a bug.'')
               else (\<lambda>fs. if lockVerify e fs then ret this2 fs else npmInstall e this2 fs)))"

text \<open>
  \<open>prepare\<close> reads the project's files (the lockfile is the shrinkwrap if there is
  one) and checks the lock. \<open>package.json\<close> is taken to be there, and the logical tree
  to build.
\<close>

definition prepare_stage :: "'l env \<Rightarrow> 'l installer \<Rightarrow> ('l files, 'l installer) io" where
  "prepare_stage e this = (\<lambda>fs.
     checkLock e
       (this\<lparr>shrinkwrap := (case npm_shrinkwrap fs of Some l \<Rightarrow> Some l | None \<Rightarrow> package_lock fs),
             pkglockHash := hash_file fs\<rparr>) fs)"

definition writeLockHash :: "'l env \<Rightarrow> 'l installer \<Rightarrow> ('l files, unit) io" where
  "writeLockHash e this = (\<lambda>fs.
     case ssri_fromData (hash e) (map_option (stringify e) (shrinkwrap this)) of
       Inl err \<Rightarrow> (Inl err, fs)
     | Inr i \<Rightarrow> (Inr (), fs\<lparr>hash_file := Some \<lparr>lockfile_integrity = SriString (Some i)\<rparr>\<rparr>))"

text \<open>
  \<open>run\<close>: the stages of a regeneration before \<open>writeLockHash\<close> are taken to
  succeed; each stage leaves its name in \<open>timings\<close>. \<open>teardown\<close> runs once more in
  the \<open>finally\<close> block.
\<close>

definition regenerate :: "'l env \<Rightarrow> 'l installer \<Rightarrow> ('l files, 'l installer) io" where
  "regenerate e this =
     (let this' = timedStage ''runScript'' (timedStage ''runScript''
                    (timedStage ''buildTree'' (timedStage ''updateJson''
                      (timedStage ''fetchTree'' this))))
      in bind (writeLockHash e this') (\<lambda>u. ret (timedStage ''writeLockHash'' this')))"

definition run :: "'l env \<Rightarrow> ('l files, 'l installer) io" where
  "run e =
     bind (prepare_stage e (constructor e)) (\<lambda>this0.
       let this = timedStage ''prepare'' this0 in
       bind (if \<not> validLockHash this \<or> force this then regenerate e this else ret this)
         (\<lambda>this2. ret (timedStage ''teardown'' (timedStage ''teardown'' this2))))"

text \<open>
  The \<open>prepare\<close> command: \<open>checkPkgLock\<close> reads \<open>package-lock.json\<close> and the seal
  and answers false when a file is missing or the seal does not verify; the installer
  runs when it answers false or \<open>--force\<close> is given, and its errors are logged.
\<close>

definition checkPkgLock :: "'l env \<Rightarrow> 'l files \<Rightarrow> bool" where
  "checkPkgLock e fs =
     (case package_lock fs of
        None \<Rightarrow> False
      | Some lock \<Rightarrow>
          (case hash_file fs of
             None \<Rightarrow> False
           | Some seal \<Rightarrow>
               (case ssri_checkData (hash e) (Some (stringify e lock)) (lockfile_integrity seal) of
                  Inl err \<Rightarrow> False
                | Inr ok \<Rightarrow> ok)))"

definition prepare :: "'l env \<Rightarrow> bool \<Rightarrow> 'l files \<Rightarrow> 'l files" where
  "prepare e argv_force fs =
     (if argv_force \<or> \<not> checkPkgLock e fs then snd (run e fs) else fs)"

section \<open>An example project\<close>

text \<open>
  The project of the specification's scenarios: the map holds the directory
  \<open>node_modules/a\<close> with the children \<open>index.js\<close> and \<open>package.json\<close>; the blob
  of \<open>index.js\<close> is \<open>module.x=1;\<close> and lives in the cache. The real filesystem is
  an association list from paths to contents and modes.
\<close>

type_synonym fsworld = "(path \<times> bytes \<times> nat) list"

definition ex_cache :: path where
  "ex_cache = ''/cache/content-v2/sha512/aa/bb/cc''"

definition ex_index :: path where
  "ex_index = ''/proj/node_modules/a/index.js''"

definition ex_file :: resolved where
  "ex_file = \<lparr>isDir = False, isFile = True, dir = [], resolvedPath = ex_cache\<rparr>"

definition ex_dir :: resolved where
  "ex_dir = \<lparr>isDir = True, isFile = False, dir = [''index.js'', ''package.json''],
             resolvedPath = ''/proj/node_modules/a''\<rparr>"

definition ex_resolve :: "path \<Rightarrow> resolution" where
  "ex_resolve p =
     (if p = ex_index then RObj ex_file
      else if p = ''/proj/node_modules/a'' then RObj ex_dir
      else if p = ''/proj/node_modules/a/missing.js'' then RFalse
      else if p = ''/proj/node_modules/nonexistent/node_modules'' then RFalse
      else RNull)"

definition ex_stat :: "resolved \<Rightarrow> bool \<Rightarrow> (fsworld, stats option) rd" where
  "ex_stat r verify w =
     (if isDir r then Inr (Some \<lparr>st_size = 0, st_mode = 493, st_isDirectory = True, cachePath = []\<rparr>)
      else (case map_of w (resolvedPath r) of
              None \<Rightarrow> Inr None
            | Some (b, m) \<Rightarrow>
                Inr (Some \<lparr>st_size = length b, st_mode = 420, st_isDirectory = False,
                           cachePath = resolvedPath r\<rparr>)))"

definition ex_read :: "resolved \<Rightarrow> (fsworld, bytes) rd" where
  "ex_read r w =
     (case map_of w (resolvedPath r) of
        None \<Rightarrow> Inl (notFoundError (resolvedPath r))
      | Some (b, m) \<Rightarrow> Inr b)"

definition ex_pk :: "fsworld pkglock" where
  "ex_pk = \<lparr>pk_resolve = ex_resolve, pk_statSync = ex_stat, pk_stat = ex_stat,
            pk_readSync = ex_read, pk_read = ex_read\<rparr>"

definition ex_world :: fsworld where
  "ex_world = [(ex_cache, ''module.x=1;'', 420)]"

text \<open>
  A host over that filesystem: a path exists when it is listed; a directory exists when
  a listed path lies under it.
\<close>

definition ex_enoent :: "string \<Rightarrow> path \<Rightarrow> js_error" where
  "ex_enoent syscall p =
     JsError (Some ''ENOENT'') (Some (- 2))
       (''ENOENT: no such file or directory, '' @ syscall @ '' '' @ p)"

definition ex_readdir :: "path \<Rightarrow> (fsworld, string list) io" where
  "ex_readdir p w =
     (let names = map (\<lambda>(q, c). drop (length p + 1) q)
                    (filter (\<lambda>(q, c). take (length p + 1) q = p @ ''/'') w)
      in if names = [] then (Inl (ex_enoent ''scandir'' p), w) else (Inr names, w))"

definition ex_pkgjson :: path where
  "ex_pkgjson = ''/proj/node_modules/a/package.json''"

definition ex_world_a :: fsworld where
  "ex_world_a = [(ex_cache, ''module.x=1;'', 420), (ex_pkgjson, ''{}'', 420)]"

definition ex_world_idx :: fsworld where
  "ex_world_idx = [(ex_cache, ''module.x=1;'', 420), (ex_index @ ''/x'', ''1'', 420)]"

definition ex_toString :: "bytes \<Rightarrow> string \<Rightarrow> js_error + string" where
  "ex_toString b enc =
     (if enc = ''utf8'' then Inr b else Inl (TypeError (''Unknown encoding: '' @ enc)))"

definition ex_readFile :: "path \<Rightarrow> js_options \<Rightarrow> (fsworld, js_data) io" where
  "ex_readFile p opts w =
     (case map_of w p of
        None \<Rightarrow> (Inl (ex_enoent ''open'' p), w)
      | Some (b, m) \<Rightarrow>
          (case decode ex_toString (requested_encoding opts) b of
             Inl e \<Rightarrow> (Inl e, w)
           | Inr d \<Rightarrow> (Inr d, w)))"

definition ex_access :: "path \<Rightarrow> nat option \<Rightarrow> (fsworld, unit) io" where
  "ex_access p mode w =
     (case map_of w p of
        None \<Rightarrow> (Inl (ex_enoent ''access'' p), w)
      | Some (b, m) \<Rightarrow> (Inr (), w))"

text \<open>
  The writing primitives of the example host put the new entry in front of the list. A
  file is created only in a directory that exists, with the mode 0o644 that the
  default 0o666 leaves under the usual umask; \<open>mkdirp\<close> lists a new directory as its
  path followed by a separator. \<open>open\<close> finds an existing file or directory, with a
  writing flag creates an empty file, and empties the one there for \<open>w\<close>;
  \<open>copyFile\<close> copies bytes and mode; \<open>writeFile\<close> keeps the mode of a file that
  exists.
\<close>

definition ex_dir_exists :: "fsworld \<Rightarrow> path \<Rightarrow> bool" where
  "ex_dir_exists w d = (d = ''/'' \<or> list_ex (\<lambda>(q, c). take (length d + 1) q = d @ ''/'') w)"

definition ex_eisdir :: "string \<Rightarrow> path \<Rightarrow> js_error" where
  "ex_eisdir syscall p =
     JsError (Some ''EISDIR'') (Some (- 21))
       (''EISDIR: illegal operation on a directory, '' @ syscall @ '' '' @ p)"

definition ex_copy :: "path \<Rightarrow> path \<Rightarrow> (fsworld, unit) io" where
  "ex_copy src dst w =
     (case map_of w src of
        None \<Rightarrow> (Inl (ex_enoent ''copyfile'' src), w)
      | Some f \<Rightarrow>
          if ex_dir_exists w (dirname dst) then (Inr (), (dst, f) # w)
          else (Inl (ex_enoent ''copyfile'' dst), w))"

definition ex_chmodSync :: "path \<Rightarrow> nat \<Rightarrow> (fsworld, unit) io" where
  "ex_chmodSync p m w =
     (case map_of w p of
        None \<Rightarrow> (Inl (ex_enoent ''chmod'' p), w)
      | Some (b, m') \<Rightarrow> (Inr (), (p, b, m) # w))"

definition ex_bytes :: "js_data option \<Rightarrow> bytes" where
  "ex_bytes d = (case d of None \<Rightarrow> ''undefined'' | Some (Buffer b) \<Rightarrow> b | Some (Str s) \<Rightarrow> s)"

definition ex_writeFile :: "path \<Rightarrow> js_data option \<Rightarrow> nat \<Rightarrow> (fsworld, unit) io" where
  "ex_writeFile p d m w =
     (case map_of w p of
        None \<Rightarrow>
          if ex_dir_exists w (dirname p) then (Inr (), (p, ex_bytes d, m) # w)
          else (Inl (ex_enoent ''open'' p), w)
      | Some (b, m') \<Rightarrow> (Inr (), (p, ex_bytes d, m') # w))"

definition ex_mkdirp :: "path \<Rightarrow> nat option \<Rightarrow> (fsworld, unit) io" where
  "ex_mkdirp p m w =
     (if ex_dir_exists w p then (Inr (), w)
      else (Inr (), (p @ ''/'', [], (case m of None \<Rightarrow> 493 | Some k \<Rightarrow> k)) # w))"

definition ex_host :: "fsworld host" where
  "ex_host = \<lparr>fs_copyFileSync = ex_copy, fs_chmodSync = ex_chmodSync, fs_copyFile = ex_copy,
              fs_writeFile = ex_writeFile, mkdirp = ex_mkdirp\<rparr>"

definition ex_writing :: "js_flags \<Rightarrow> bool" where
  "ex_writing flags = (flags \<in> {FStr ''w'', FStr ''w+'', FStr ''a'', FStr ''a+''})"

definition ex_open :: "path \<Rightarrow> js_flags \<Rightarrow> nat option \<Rightarrow> (fsworld, nat) io" where
  "ex_open p flags mode w =
     (case map_of w p of
        None \<Rightarrow>
          if ex_dir_exists w p then
            (if ex_writing flags \<or> flags = FStr ''r+''
             then (Inl (ex_eisdir ''open'' p), w) else (Inr 3, w))
          else if ex_writing flags \<and> ex_dir_exists w (dirname p) then (Inr 3, (p, [], 420) # w)
          else (Inl (ex_enoent ''open'' p), w)
      | Some (b, m) \<Rightarrow>
          if flags = FStr ''w'' \<or> flags = FStr ''w+'' then (Inr 3, (p, [], m) # w)
          else (Inr 3, w))"

text \<open>
  The stream constructors of the host open the path through \<open>fs.open\<close>, which is
  the overlay's \<open>open\<close>, with the flags of the options or their default and the mode
  0o666; the stream is told by what that \<open>open\<close> hands on, a descriptor or an error.
\<close>

definition ex_fs_open :: "path \<Rightarrow> js_flags \<Rightarrow> nat option \<Rightarrow> (fsworld, nat cbs) io" where
  "ex_fs_open = open_patch ex_pk ex_host ex_toString ex_readFile ex_chmodSync ex_open"

definition ex_ReadStream :: "path \<Rightarrow> js_flags option \<Rightarrow> (fsworld, nat cbs) io" where
  "ex_ReadStream p opts =
     ex_fs_open p (case opts of None \<Rightarrow> FStr ''r'' | Some FUndefined \<Rightarrow> FStr ''r'' | Some f \<Rightarrow> f)
       (Some 438)"

definition ex_WriteStream :: "path \<Rightarrow> js_flags option \<Rightarrow> (fsworld, nat cbs) io" where
  "ex_WriteStream p opts =
     ex_fs_open p (case opts of None \<Rightarrow> FStr ''w'' | Some FUndefined \<Rightarrow> FStr ''w'' | Some f \<Rightarrow> f)
       (Some 438)"

text \<open>
  Lockfiles for the examples are given by their \<open>JSON.stringify\<close> text; the example
  hash writes a letter for each byte. \<open>lock_text n\<close> is the text of a lockfile whose name has
  \<open>n\<close> letters.
\<close>

definition lock_text :: "nat \<Rightarrow> string" where
  "lock_text n =
     ''{'' @ [CHR 0x22] @ ''name'' @ [CHR 0x22] @ '':'' @ [CHR 0x22] @ replicate n (CHR ''a'')
       @ [CHR 0x22] @ '','' @ [CHR 0x22] @ ''lockfileVersion'' @ [CHR 0x22] @ '':1}''"

definition ex_hash :: "string \<Rightarrow> (string \<Rightarrow> digest) option" where
  "ex_hash alg =
     (if alg = ''sha512'' then Some (\<lambda>data. replicate (length data) (CHR ''A'')) else None)"

definition ex_env :: "string env" where
  "ex_env = \<lparr>stringify = (\<lambda>l. l), lockfileVersion = (\<lambda>l. True), hash = ex_hash,
             npm = (\<lambda>fs. fs), lockVerify = (\<lambda>fs. True), opts_force = False\<rparr>"

definition ex_seal :: "nat \<Rightarrow> pkglock_hash" where
  "ex_seal n =
     \<lparr>lockfile_integrity =
        SriString (Some (Integrity ''sha512'' (replicate (length (lock_text n)) (CHR ''A''))))\<rparr>"

definition ex_shrinkwrapped :: "string files" where
  "ex_shrinkwrapped =
     \<lparr>package_lock = None, npm_shrinkwrap = Some (lock_text 1), hash_file = Some (ex_seal 1)\<rparr>"

definition ex_locked :: "string files" where
  "ex_locked =
     \<lparr>package_lock = Some (lock_text 1), npm_shrinkwrap = None, hash_file = Some (ex_seal 1)\<rparr>"

text \<open>A host \<open>stat\<close> that is refused on every path.\<close>

definition ex_eacces :: "string \<Rightarrow> path \<Rightarrow> js_error" where
  "ex_eacces syscall p =
     JsError (Some ''EACCES'') (Some (- 13)) (''EACCES: permission denied, '' @ syscall @ '' '' @ p)"

definition ex_stat_denied :: "path \<Rightarrow> (fsworld, stats) io" where
  "ex_stat_denied p = throw (ex_eacces ''stat'' p)"

section \<open>Untracked paths\<close>

lemma untracked_sync_passthrough:
  assumes "pk_resolve pk p = RNull"
  shows "existsSync_patch pk existsSync p = existsSync p"
    and "readFileSync_patch pk ts readFileSync p options = readFileSync p options"
    and "openSync_patch pk h openSync p flags mode = openSync p flags mode"
    and "createReadStream_patch pk h crs p opts = crs p opts"
    and "createWriteStream_patch pk h cws p opts = cws p opts"
    and "internalModuleReadJSON_patch pk utf8 readJSON p = readJSON p"
    and "internalModuleStat_patch pk moduleStat p = moduleStat p"
    and "overrideAPISync pk name old p = old p"
    and "accessSync_patch pk accessSync p amode w = Some (accessSync p amode w)"
  using assms
  by (simp_all add: existsSync_patch_def readFileSync_patch_def openSync_patch_def
        createReadStream_patch_def createWriteStream_patch_def internalModuleReadJSON_patch_def
        internalModuleStat_patch_def overrideAPISync_def accessSync_patch.simps)

lemma untracked_async_passthrough:
  assumes "pk_resolve pk p = RNull"
  shows "exists_patch pk exists p = once (exists p)"
    and "access_patch pk access p amode = once (access p amode)"
    and "readFile_patch pk ts readFile p options = once (readFile p options)"
    and "chmod_patch pk h ts readFile chmod p mode = once (chmod p mode)"
  using assms
  by (simp_all add: exists_patch_def access_patch_def readFile_patch_def chmod_patch_def)

lemma untracked_statSync:
  assumes "pk_resolve pk p = RNull"
  shows "statSync_patch pk statSync p w =
           (case statSync p w of
              (Inl err, w') \<Rightarrow>
                if ecode err = Some ''ENOENT'' then (Inl (notFoundError p), w') else (Inl err, w')
            | (Inr s, w') \<Rightarrow> (Inr s, w'))"
    and "lstatSync_patch pk statSync p w =
           (case statSync p w of
              (Inl err, w') \<Rightarrow>
                if ecode err = Some ''ENOENT'' then (Inl (notFoundError p), w') else (Inl err, w')
            | (Inr s, w') \<Rightarrow> (Inr s, w'))"
    and "realpathSync_patch pk realpathSync p w =
           (case realpathSync p w of
              (Inl err, w') \<Rightarrow>
                if ecode err = Some ''ENOENT'' then (Inl (notFoundError p), w') else (Inl err, w')
            | (Inr s, w') \<Rightarrow> (Inr s, w'))"
  using assms
  by (simp_all add: statSync_patch_def lstatSync_patch_def realpathSync_patch_def try_catch_def
        throw_def split: prod.splits sum.splits)

lemma untracked_stat_any_error:
  assumes "pk_resolve pk p = RNull" and "stat p w = (Inl err, w')"
  shows "stat_patch pk stat p w = (Inr [Inl (notFoundError p)], w')"
    and "lstat_patch pk stat p w = (Inr [Inl (notFoundError p)], w')"
  using assms by (simp_all add: stat_patch_def lstat_patch_def)

text \<open>
  C1. On an untracked path the asynchronous \<open>stat\<close> and \<open>lstat\<close> answer every
  failure of the real call with the overlay's own ENOENT: here the host refuses the
  call with EACCES, the overlay's callback receives ENOENT, and the synchronous
  \<open>statSync\<close> on the same path throws the host's EACCES.
\<close>

theorem stat_untracked_masks_host_error:
  "pk_resolve ex_pk ''/root/secret'' = RNull \<and>
   once (ex_stat_denied ''/root/secret'') ex_world
     = (Inr [Inl (ex_eacces ''stat'' ''/root/secret'')], ex_world) \<and>
   stat_patch ex_pk ex_stat_denied ''/root/secret'' ex_world
     = (Inr [Inl (notFoundError ''/root/secret'')], ex_world) \<and>
   lstat_patch ex_pk ex_stat_denied ''/root/secret'' ex_world
     = (Inr [Inl (notFoundError ''/root/secret'')], ex_world) \<and>
   ecode (ex_eacces ''stat'' ''/root/secret'') = Some ''EACCES'' \<and>
   ecode (notFoundError ''/root/secret'') = Some ''ENOENT'' \<and>
   statSync_patch ex_pk ex_stat_denied ''/root/secret'' ex_world
     = (Inl (ex_eacces ''stat'' ''/root/secret''), ex_world)"
proof -
  have r: "pk_resolve ex_pk ''/root/secret'' = RNull"
    by (simp add: ex_pk_def ex_resolve_def ex_index_def)
  have c: "ecode (ex_eacces ''stat'' ''/root/secret'') = Some ''EACCES''"
      "ecode (notFoundError ''/root/secret'') = Some ''ENOENT''"
    by (simp_all add: ex_eacces_def notFoundError_def)
  show ?thesis
    using r c
    by (simp add: stat_patch_def lstat_patch_def statSync_patch_def once_def ex_stat_denied_def
          throw_def try_catch_def)
qed

section \<open>The stat probe of the module loader\<close>

lemma basename_node_modules:
  "basename ''/proj/node_modules/nonexistent/node_modules'' = ''node_modules''"
  by (simp add: basename_def)

lemma basename_missing_js:
  "basename ''/proj/node_modules/a/missing.js'' = ''missing.js''"
  by (simp add: basename_def)

text \<open>
  C8. The patched \<open>internalModuleStat\<close> answers 0 for a path that resolves to a file
  entry, 1 for a path that resolves to a directory entry, 1 for a tracked path that does
  not exist and whose basename is \<open>node_modules\<close>, and -34 for every other tracked path
  that does not exist; the real probe is not called and the world is left as it was.
\<close>

theorem internalModuleStat_tracked:
  "(pk_resolve pk p = RObj r \<and> isFile r
      \<longrightarrow> internalModuleStat_patch pk orig p w = (Inr 0, w)) \<and>
   (pk_resolve pk p = RObj r \<and> isDir r \<and> \<not> isFile r
      \<longrightarrow> internalModuleStat_patch pk orig p w = (Inr 1, w)) \<and>
   (pk_resolve pk p = RFalse \<and> basename p = ''node_modules''
      \<longrightarrow> internalModuleStat_patch pk orig p w = (Inr 1, w)) \<and>
   (pk_resolve pk p = RFalse \<and> basename p \<noteq> ''node_modules''
      \<longrightarrow> internalModuleStat_patch pk orig p w = (Inr (- 34), w))"
  by (simp add: internalModuleStat_patch_def ret_def)

theorem internalModuleStat_tracked_witness:
  "internalModuleStat_patch ex_pk (\<lambda>p. throw (TypeError ''unused'')) ex_index ex_world
     = (Inr 0, ex_world) \<and>
   internalModuleStat_patch ex_pk (\<lambda>p. throw (TypeError ''unused'')) ''/proj/node_modules/a'' ex_world
     = (Inr 1, ex_world) \<and>
   internalModuleStat_patch ex_pk (\<lambda>p. throw (TypeError ''unused''))
       ''/proj/node_modules/nonexistent/node_modules'' ex_world
     = (Inr 1, ex_world) \<and>
   internalModuleStat_patch ex_pk (\<lambda>p. throw (TypeError ''unused''))
       ''/proj/node_modules/a/missing.js'' ex_world
     = (Inr (- 34), ex_world)"
proof -
  have f: "pk_resolve ex_pk ex_index = RObj ex_file \<and> isFile ex_file"
    by (simp add: ex_pk_def ex_resolve_def ex_file_def)
  have d: "pk_resolve ex_pk ''/proj/node_modules/a'' = RObj ex_dir \<and> isDir ex_dir \<and> \<not> isFile ex_dir"
    by (simp add: ex_pk_def ex_resolve_def ex_dir_def ex_index_def)
  have n: "pk_resolve ex_pk ''/proj/node_modules/nonexistent/node_modules'' = RFalse"
    by (simp add: ex_pk_def ex_resolve_def ex_index_def)
  have m: "pk_resolve ex_pk ''/proj/node_modules/a/missing.js'' = RFalse"
    by (simp add: ex_pk_def ex_resolve_def ex_index_def)
  show ?thesis
    using internalModuleStat_tracked [of ex_pk ex_index ex_file _ ex_world]
      internalModuleStat_tracked [of ex_pk "''/proj/node_modules/a''" ex_dir _ ex_world]
      internalModuleStat_tracked [of ex_pk "''/proj/node_modules/nonexistent/node_modules''" _ _ ex_world]
      internalModuleStat_tracked [of ex_pk "''/proj/node_modules/a/missing.js''" _ _ ex_world]
      f d n m basename_node_modules basename_missing_js
    by simp
qed

section \<open>The JSON probe of the module loader\<close>

lemma ex_resolve_index: "pk_resolve ex_pk ex_index = RObj ex_file"
  by (simp add: ex_pk_def ex_resolve_def)

lemma ex_resolve_a: "pk_resolve ex_pk ''/proj/node_modules/a'' = RObj ex_dir"
  by (simp add: ex_pk_def ex_resolve_def ex_index_def)

lemma ex_resolve_missing: "pk_resolve ex_pk ''/proj/node_modules/a/missing.js'' = RFalse"
  by (simp add: ex_pk_def ex_resolve_def ex_index_def)

lemma ex_resolve_etc: "pk_resolve ex_pk ''/etc/hosts'' = RNull"
  by (simp add: ex_pk_def ex_resolve_def ex_index_def)

lemma ex_readSync_present: "pk_readSync ex_pk ex_file ex_world = Inr ''module.x=1;''"
  by (simp add: ex_pk_def ex_read_def ex_file_def ex_world_def)

lemma ex_readSync_absent: "pk_readSync ex_pk ex_file [] = Inl (notFoundError ex_cache)"
  by (simp add: ex_pk_def ex_read_def ex_file_def)

text \<open>
  C10. The patched \<open>internalModuleReadJSON\<close> delegates to the original probe on an
  untracked path; on a tracked path it never raises: it returns \<open>undefined\<close> for a
  missing path and for a directory, the blob decoded as UTF-8 for a file, and
  \<open>undefined\<close> when reading the blob fails. So it raises on no path at all when the
  original probe never raises.
\<close>

theorem internalModuleReadJSON_never_raises:
  "(pk_resolve pk p = RNull
      \<longrightarrow> internalModuleReadJSON_patch pk utf8 orig p w = orig p w) \<and>
   (pk_resolve pk p = RFalse
      \<longrightarrow> internalModuleReadJSON_patch pk utf8 orig p w = (Inr None, w)) \<and>
   (pk_resolve pk p = RObj r \<and> isDir r
      \<longrightarrow> internalModuleReadJSON_patch pk utf8 orig p w = (Inr None, w)) \<and>
   (pk_resolve pk p = RObj r \<and> \<not> isDir r \<and> pk_readSync pk r w = Inr b
      \<longrightarrow> internalModuleReadJSON_patch pk utf8 orig p w = (Inr (Some (utf8 b)), w)) \<and>
   (pk_resolve pk p = RObj r \<and> \<not> isDir r \<and> pk_readSync pk r w = Inl e
      \<longrightarrow> internalModuleReadJSON_patch pk utf8 orig p w = (Inr None, w)) \<and>
   (pk_resolve pk p \<noteq> RNull \<or> (\<exists>v. fst (orig p w) = Inr v)
      \<longrightarrow> (\<exists>v. fst (internalModuleReadJSON_patch pk utf8 orig p w) = Inr v))"
proof -
  have tracked: "\<exists>v. fst (internalModuleReadJSON_patch pk utf8 orig p w) = Inr v"
    if "pk_resolve pk p \<noteq> RNull"
  proof (cases "pk_resolve pk p")
    case RNull
    with that show ?thesis by simp
  next
    case RFalse
    then show ?thesis by (simp add: internalModuleReadJSON_patch_def ret_def)
  next
    case (RObj x)
    then show ?thesis
      by (cases "pk_readSync pk x w")
         (simp_all add: internalModuleReadJSON_patch_def ret_def try_catch_def bind_def lift_rd_def)
  qed
  have untracked: "internalModuleReadJSON_patch pk utf8 orig p w = orig p w"
    if "pk_resolve pk p = RNull"
    using that by (simp add: internalModuleReadJSON_patch_def)
  have last: "\<exists>v. fst (internalModuleReadJSON_patch pk utf8 orig p w) = Inr v"
    if "pk_resolve pk p \<noteq> RNull \<or> (\<exists>v. fst (orig p w) = Inr v)"
  proof (cases "pk_resolve pk p = RNull")
    case True
    with that untracked show ?thesis by simp
  next
    case False
    then show ?thesis by (rule tracked)
  qed
  have rest: "(pk_resolve pk p = RFalse
      \<longrightarrow> internalModuleReadJSON_patch pk utf8 orig p w = (Inr None, w)) \<and>
   (pk_resolve pk p = RObj r \<and> isDir r
      \<longrightarrow> internalModuleReadJSON_patch pk utf8 orig p w = (Inr None, w)) \<and>
   (pk_resolve pk p = RObj r \<and> \<not> isDir r \<and> pk_readSync pk r w = Inr b
      \<longrightarrow> internalModuleReadJSON_patch pk utf8 orig p w = (Inr (Some (utf8 b)), w)) \<and>
   (pk_resolve pk p = RObj r \<and> \<not> isDir r \<and> pk_readSync pk r w = Inl e
      \<longrightarrow> internalModuleReadJSON_patch pk utf8 orig p w = (Inr None, w))"
    by (simp add: internalModuleReadJSON_patch_def ret_def try_catch_def bind_def lift_rd_def)
  show ?thesis
    using untracked last rest by blast
qed

theorem internalModuleReadJSON_never_raises_witness:
  "internalModuleReadJSON_patch ex_pk id (\<lambda>p. ret (Some ''127.0.0.1'')) ''/etc/hosts'' ex_world
     = (Inr (Some ''127.0.0.1''), ex_world) \<and>
   internalModuleReadJSON_patch ex_pk id (\<lambda>p. ret None) ''/proj/node_modules/a/missing.js'' ex_world
     = (Inr None, ex_world) \<and>
   internalModuleReadJSON_patch ex_pk id (\<lambda>p. ret None) ''/proj/node_modules/a'' ex_world
     = (Inr None, ex_world) \<and>
   internalModuleReadJSON_patch ex_pk id (\<lambda>p. ret None) ex_index ex_world
     = (Inr (Some ''module.x=1;''), ex_world) \<and>
   internalModuleReadJSON_patch ex_pk id (\<lambda>p. ret None) ex_index []
     = (Inr None, []) \<and>
   (\<exists>v. fst (internalModuleReadJSON_patch ex_pk id (\<lambda>p. ret None) ex_index []) = Inr v)"
proof -
  have d: "isDir ex_dir" and f: "\<not> isDir ex_file"
    by (simp_all add: ex_dir_def ex_file_def)
  have r: "(ret (Some ''127.0.0.1'') :: (fsworld, string option) io) ex_world
             = (Inr (Some ''127.0.0.1''), ex_world)"
    by (simp add: ret_def)
  have t: "pk_resolve ex_pk ex_index \<noteq> RNull"
    by (simp add: ex_resolve_index)
  show ?thesis
    using internalModuleReadJSON_never_raises
        [of ex_pk "''/etc/hosts''" id "\<lambda>p. ret (Some ''127.0.0.1'')" ex_world]
      internalModuleReadJSON_never_raises
        [of ex_pk "''/proj/node_modules/a/missing.js''" id "\<lambda>p. ret None" ex_world]
      internalModuleReadJSON_never_raises
        [of ex_pk "''/proj/node_modules/a''" id "\<lambda>p. ret None" ex_world ex_dir]
      internalModuleReadJSON_never_raises
        [of ex_pk ex_index id "\<lambda>p. ret None" ex_world ex_file "''module.x=1;''"]
      internalModuleReadJSON_never_raises
        [of ex_pk ex_index id "\<lambda>p. ret None" "[]" ex_file _ "notFoundError ex_cache"]
      ex_resolve_etc ex_resolve_missing ex_resolve_a ex_resolve_index
      ex_readSync_present ex_readSync_absent d f r t
    by simp
qed

section \<open>Directory listings\<close>

lemma set_dedupe: "set (dedupe xs) = set xs"
  by (simp add: dedupe_def)

lemma distinct_dedupe: "distinct (dedupe xs)"
  by (simp add: dedupe_def)

lemma readdir_as_readdirSync:
  "readdir_patch pk readdir p w =
     (Inr [fst (readdirSync_patch pk readdir p w)], snd (readdirSync_patch pk readdir p w))"
  by (simp add: readdir_patch_def readdirSync_patch_def bind_def try_catch_def ret_def throw_def
        split: prod.splits sum.splits resolution.splits)

lemma readdirSync_cases:
  "readdirSync_patch pk readdir p w =
     (case readdir p w of
        (Inr files, w') \<Rightarrow>
          (case pk_resolve pk p of
             RObj r \<Rightarrow> if isDir r then (Inr (dedupe (files @ dir r)), w') else (Inl notDirError, w')
           | _ \<Rightarrow> (Inr (dedupe files), w'))
      | (Inl err, w') \<Rightarrow>
          if ecode err \<noteq> Some ''ENOENT'' then (Inl err, w')
          else (case pk_resolve pk p of
                  RObj r \<Rightarrow> if isDir r then (Inr (dedupe (dir r)), w') else (Inl (notFoundError p), w')
                | _ \<Rightarrow> (Inl (notFoundError p), w')))"
  by (simp add: readdirSync_patch_def bind_def try_catch_def ret_def throw_def
        split: prod.splits sum.splits resolution.splits)

text \<open>
  C3. The overlay's \<open>readdirSync\<close> and \<open>readdir\<close> return the duplicate-free union of
  the real listing and the names of the map directory's children: the real names
  followed by the children when the real call succeeds, the children alone when the real
  call fails with ENOENT and the resolver answers a directory; they fail with ENOENT
  when the real call fails with ENOENT and the resolver answers no directory, and with
  ENOTDIR when the real call succeeds and the resolver answers a file.
\<close>

theorem readdir_merge:
  "(readdir p w = (Inr files, w') \<and> pk_resolve pk p = RObj r \<and> isDir r \<longrightarrow>
      (\<exists>l. readdirSync_patch pk readdir p w = (Inr l, w') \<and>
           readdir_patch pk readdir p w = (Inr [Inr l], w') \<and>
           distinct l \<and> set l = set files \<union> set (dir r))) \<and>
   (readdir p w = (Inr files, w') \<and> \<not> truthy (pk_resolve pk p) \<longrightarrow>
      (\<exists>l. readdirSync_patch pk readdir p w = (Inr l, w') \<and>
           readdir_patch pk readdir p w = (Inr [Inr l], w') \<and>
           distinct l \<and> set l = set files)) \<and>
   (readdir p w = (Inl err, w') \<and> ecode err = Some ''ENOENT'' \<and>
    pk_resolve pk p = RObj r \<and> isDir r \<longrightarrow>
      (\<exists>l. readdirSync_patch pk readdir p w = (Inr l, w') \<and>
           readdir_patch pk readdir p w = (Inr [Inr l], w') \<and>
           distinct l \<and> set l = set (dir r))) \<and>
   (readdir p w = (Inl err, w') \<and> ecode err = Some ''ENOENT'' \<and>
    (\<forall>r. pk_resolve pk p = RObj r \<longrightarrow> \<not> isDir r) \<longrightarrow>
      readdirSync_patch pk readdir p w = (Inl (notFoundError p), w') \<and>
      readdir_patch pk readdir p w = (Inr [Inl (notFoundError p)], w') \<and>
      ecode (notFoundError p) = Some ''ENOENT'' \<and> eerrno (notFoundError p) = Some (- 2)) \<and>
   (readdir p w = (Inr files, w') \<and> pk_resolve pk p = RObj r \<and> \<not> isDir r \<longrightarrow>
      readdirSync_patch pk readdir p w = (Inl notDirError, w') \<and>
      readdir_patch pk readdir p w = (Inr [Inl notDirError], w') \<and>
      ecode notDirError = Some ''ENOTDIR'' \<and> eerrno notDirError = Some (- 20))"
proof -
  have a: "truthy x \<longleftrightarrow> (\<exists>r. x = RObj r)" for x
    by (cases x) simp_all
  show ?thesis
    unfolding readdir_as_readdirSync readdirSync_cases
    by (auto simp add: set_dedupe distinct_dedupe notFoundError_def notDirError_def a
          split: resolution.splits)
qed

lemma ex_readdir_a:
  "ex_readdir ''/proj/node_modules/a'' ex_world_a = (Inr [''package.json''], ex_world_a)"
  by (simp add: ex_readdir_def ex_world_a_def ex_cache_def ex_pkgjson_def)

lemma ex_readdir_cache:
  "ex_readdir ''/cache/content-v2/sha512/aa/bb'' ex_world = (Inr [''cc''], ex_world)"
  by (simp add: ex_readdir_def ex_world_def ex_cache_def)

lemma ex_readdir_a_absent:
  "ex_readdir ''/proj/node_modules/a'' ex_world
     = (Inl (ex_enoent ''scandir'' ''/proj/node_modules/a''), ex_world)"
  by (simp add: ex_readdir_def ex_world_def ex_cache_def)

lemma ex_readdir_missing:
  "ex_readdir ''/proj/node_modules/a/missing.js'' ex_world
     = (Inl (ex_enoent ''scandir'' ''/proj/node_modules/a/missing.js''), ex_world)"
  by (simp add: ex_readdir_def ex_world_def ex_cache_def)

lemma ex_readdir_index:
  "ex_readdir ex_index ex_world_idx = (Inr [''x''], ex_world_idx)"
  by (simp add: ex_readdir_def ex_world_idx_def ex_cache_def ex_index_def)

theorem readdir_merge_witness:
  "readdirSync_patch ex_pk ex_readdir ''/proj/node_modules/a'' ex_world_a
     = (Inr [''package.json'', ''index.js''], ex_world_a) \<and>
   readdirSync_patch ex_pk ex_readdir ''/cache/content-v2/sha512/aa/bb'' ex_world
     = (Inr [''cc''], ex_world) \<and>
   readdirSync_patch ex_pk ex_readdir ''/proj/node_modules/a'' ex_world
     = (Inr [''index.js'', ''package.json''], ex_world) \<and>
   readdir_patch ex_pk ex_readdir ''/proj/node_modules/a/missing.js'' ex_world
     = (Inr [Inl (notFoundError ''/proj/node_modules/a/missing.js'')], ex_world) \<and>
   readdir_patch ex_pk ex_readdir ex_index ex_world_idx
     = (Inr [Inl notDirError], ex_world_idx)"
proof -
  have d: "isDir ex_dir" "\<not> isDir ex_file" "dir ex_dir = [''index.js'', ''package.json'']"
    by (simp_all add: ex_dir_def ex_file_def)
  have c: "pk_resolve ex_pk ''/cache/content-v2/sha512/aa/bb'' = RNull"
    by (simp add: ex_pk_def ex_resolve_def ex_index_def)
  have e: "ecode (ex_enoent s q) = Some ''ENOENT''" for s q
    by (simp add: ex_enoent_def)
  have l1: "distinct l \<Longrightarrow> set l = {''package.json''} \<union> {''index.js'', ''package.json''}
              \<Longrightarrow> readdirSync_patch ex_pk ex_readdir ''/proj/node_modules/a'' ex_world_a = (Inr l, ex_world_a)
              \<Longrightarrow> l = dedupe ([''package.json''] @ [''index.js'', ''package.json''])" for l
    by (simp add: readdirSync_cases ex_readdir_a ex_resolve_a d)
  have l3: "readdirSync_patch ex_pk ex_readdir ''/proj/node_modules/a'' ex_world = (Inr l, ex_world)
              \<Longrightarrow> l = dedupe [''index.js'', ''package.json'']" for l
    by (simp add: readdirSync_cases ex_readdir_a_absent ex_resolve_a d e)
  have l2: "readdirSync_patch ex_pk ex_readdir ''/cache/content-v2/sha512/aa/bb'' ex_world = (Inr l, ex_world)
              \<Longrightarrow> l = dedupe [''cc'']" for l
    by (simp add: readdirSync_cases ex_readdir_cache c)
  have v: "dedupe ([''package.json''] @ [''index.js'', ''package.json'']) = [''package.json'', ''index.js'']"
      "dedupe [''index.js'', ''package.json''] = [''index.js'', ''package.json'']"
      "dedupe [''cc''] = [''cc'']"
    by (simp_all add: dedupe_def)
  from readdir_merge [of ex_readdir "''/proj/node_modules/a''" ex_world_a "[''package.json'']"
      ex_world_a ex_pk ex_dir]
  have w1: "readdirSync_patch ex_pk ex_readdir ''/proj/node_modules/a'' ex_world_a
     = (Inr [''package.json'', ''index.js''], ex_world_a)"
    using ex_readdir_a ex_resolve_a d l1 v by auto
  from readdir_merge [of ex_readdir "''/cache/content-v2/sha512/aa/bb''" ex_world "[''cc'']"
      ex_world ex_pk]
  have w2: "readdirSync_patch ex_pk ex_readdir ''/cache/content-v2/sha512/aa/bb'' ex_world
     = (Inr [''cc''], ex_world)"
    using ex_readdir_cache c l2 v by auto
  from readdir_merge [of ex_readdir "''/proj/node_modules/a''" ex_world _
      ex_world ex_pk ex_dir "ex_enoent ''scandir'' ''/proj/node_modules/a''"]
  have w3: "readdirSync_patch ex_pk ex_readdir ''/proj/node_modules/a'' ex_world
     = (Inr [''index.js'', ''package.json''], ex_world)"
    using ex_readdir_a_absent ex_resolve_a d e l3 v by auto
  from readdir_merge [of ex_readdir "''/proj/node_modules/a/missing.js''" ex_world _
      ex_world ex_pk _ "ex_enoent ''scandir'' ''/proj/node_modules/a/missing.js''"]
  have w4: "readdir_patch ex_pk ex_readdir ''/proj/node_modules/a/missing.js'' ex_world
     = (Inr [Inl (notFoundError ''/proj/node_modules/a/missing.js'')], ex_world)"
    using ex_readdir_missing ex_resolve_missing e by simp
  from readdir_merge [of ex_readdir ex_index ex_world_idx "[''x'']" ex_world_idx ex_pk ex_file]
  have w5: "readdir_patch ex_pk ex_readdir ex_index ex_world_idx
     = (Inr [Inl notDirError], ex_world_idx)"
    using ex_readdir_index ex_resolve_index d by simp
  from w1 w2 w3 w4 w5 show ?thesis by simp
qed

section \<open>Reading files\<close>

text \<open>
  C4. On a tracked path the overlay's \<open>readFileSync\<close> and \<open>readFile\<close> fail with EISDIR
  (errno -21) when the resolver answers a directory and with ENOENT (errno -2) when it
  answers that the path is missing; when it answers a file they return the blob's bytes,
  decoded when an encoding is requested, and the result does not depend on the real
  \<open>readFile\<close>. The asynchronous form is stated for an options argument of a type the
  host accepts.
\<close>

theorem readFile_tracked:
  "(pk_resolve pk p = RObj r \<and> isDir r \<longrightarrow>
      readFileSync_patch pk ts orig p opts w = (Inl (isDirError p ''read''), w) \<and>
      ecode (isDirError p ''read'') = Some ''EISDIR'' \<and>
      eerrno (isDirError p ''read'') = Some (- 21)) \<and>
   (pk_resolve pk p = RObj r \<and> isDir r \<and> (\<forall>b. opts \<noteq> OOther b) \<longrightarrow>
      readFile_patch pk ts orig' p opts w = (Inr [Inl (isDirError p ''read'')], w)) \<and>
   (pk_resolve pk p = RFalse \<longrightarrow>
      readFileSync_patch pk ts orig p opts w = (Inl (notFoundError p), w) \<and>
      ecode (notFoundError p) = Some ''ENOENT'' \<and>
      eerrno (notFoundError p) = Some (- 2)) \<and>
   (pk_resolve pk p = RFalse \<and> (\<forall>b. opts \<noteq> OOther b) \<longrightarrow>
      readFile_patch pk ts orig' p opts w = (Inr [Inl (notFoundError p)], w)) \<and>
   (pk_resolve pk p = RObj r \<and> \<not> isDir r \<and> pk_readSync pk r w = Inr data \<and>
    opts \<noteq> OFunction \<and> opts \<noteq> OOther True \<and>
    decode ts (requested_encoding opts) data = Inr d \<longrightarrow>
      readFileSync_patch pk ts orig p opts w = (Inr d, w)) \<and>
   (pk_resolve pk p = RObj r \<and> \<not> isDir r \<and> pk_read pk r w = Inr data \<and>
    (\<forall>b. opts \<noteq> OOther b) \<and>
    decode ts (requested_encoding opts) data = Inr d \<longrightarrow>
      readFile_patch pk ts orig' p opts w = (Inr [Inr d], w)) \<and>
   (decode ts None data = Inr (Buffer data)) \<and>
   (enc \<noteq> [] \<and> ts data enc = Inr s \<longrightarrow> decode ts (Some enc) data = Inr (Str s)) \<and>
   (pk_resolve pk p \<noteq> RNull \<longrightarrow>
      readFileSync_patch pk ts orig p opts w = readFileSync_patch pk ts other p opts w \<and>
      readFile_patch pk ts orig' p opts w = readFile_patch pk ts other' p opts w)"
proof -
  have dir_sync: "readFileSync_patch pk ts orig p opts w = (Inl (isDirError p ''read''), w)"
    if "pk_resolve pk p = RObj r" "isDir r"
    using that by (simp add: readFileSync_patch_def throw_def)
  have dir_async: "readFile_patch pk ts orig' p opts w = (Inr [Inl (isDirError p ''read'')], w)"
    if "pk_resolve pk p = RObj r" "isDir r" "\<forall>b. opts \<noteq> OOther b"
    using that by (cases opts) (auto simp add: readFile_patch_def bind_def ret_def deliver_def)
  have miss_sync: "readFileSync_patch pk ts orig p opts w = (Inl (notFoundError p), w)"
    if "pk_resolve pk p = RFalse"
    using that by (simp add: readFileSync_patch_def throw_def)
  have miss_async: "readFile_patch pk ts orig' p opts w = (Inr [Inl (notFoundError p)], w)"
    if "pk_resolve pk p = RFalse" "\<forall>b. opts \<noteq> OOther b"
    using that by (cases opts) (auto simp add: readFile_patch_def bind_def ret_def deliver_def)
  have file_sync: "readFileSync_patch pk ts orig p opts w = (Inr d, w)"
    if "pk_resolve pk p = RObj r" "\<not> isDir r" "pk_readSync pk r w = Inr data"
       "opts \<noteq> OFunction" "opts \<noteq> OOther True"
       "decode ts (requested_encoding opts) data = Inr d"
  proof (cases opts)
    case (OString x)
    with that show ?thesis
      by (cases "x = []")
         (simp_all add: readFileSync_patch_def bind_def ret_def lift_rd_def decode_def)
  next
    case (OOther b)
    with that show ?thesis
      by (simp add: readFileSync_patch_def bind_def ret_def lift_rd_def)
  qed (use that in \<open>simp_all add: readFileSync_patch_def bind_def ret_def lift_rd_def\<close>)
  have file_async: "readFile_patch pk ts orig' p opts w = (Inr [Inr d], w)"
    if "pk_resolve pk p = RObj r" "\<not> isDir r" "pk_read pk r w = Inr data"
       "\<forall>b. opts \<noteq> OOther b" "decode ts (requested_encoding opts) data = Inr d"
    using that by (cases opts) (auto simp add: readFile_patch_def bind_def ret_def)
  have dec: "decode ts None data = Inr (Buffer data)"
       "enc \<noteq> [] \<and> ts data enc = Inr s \<longrightarrow> decode ts (Some enc) data = Inr (Str s)"
    by (simp_all add: decode_def)
  have indep: "readFileSync_patch pk ts orig p opts w = readFileSync_patch pk ts other p opts w \<and>
      readFile_patch pk ts orig' p opts w = readFile_patch pk ts other' p opts w"
    if "pk_resolve pk p \<noteq> RNull"
    using that by (cases "pk_resolve pk p") (simp_all add: readFileSync_patch_def readFile_patch_def)
  show ?thesis
    using dir_sync dir_async miss_sync miss_async file_sync file_async dec indep
    by (simp add: isDirError_def notFoundError_def)
qed

lemma ex_read_present: "pk_read ex_pk ex_file ex_world = Inr ''module.x=1;''"
  by (simp add: ex_pk_def ex_read_def ex_file_def ex_world_def)

lemma ex_decode_utf8:
  "decode ex_toString (requested_encoding (OString ''utf8'')) ''module.x=1;''
     = Inr (Str ''module.x=1;'')"
  by (simp add: decode_def ex_toString_def)

theorem readFile_tracked_witness:
  "readFileSync_patch ex_pk ex_toString ex_readFile ''/proj/node_modules/a'' (OString ''utf8'') ex_world
     = (Inl (isDirError ''/proj/node_modules/a'' ''read''), ex_world) \<and>
   readFile_patch ex_pk ex_toString ex_readFile ''/proj/node_modules/a'' (OString ''utf8'') ex_world
     = (Inr [Inl (isDirError ''/proj/node_modules/a'' ''read'')], ex_world) \<and>
   readFileSync_patch ex_pk ex_toString ex_readFile ''/proj/node_modules/a/missing.js'' OUndefined ex_world
     = (Inl (notFoundError ''/proj/node_modules/a/missing.js''), ex_world) \<and>
   readFile_patch ex_pk ex_toString ex_readFile ''/proj/node_modules/a/missing.js'' OFunction ex_world
     = (Inr [Inl (notFoundError ''/proj/node_modules/a/missing.js'')], ex_world) \<and>
   readFileSync_patch ex_pk ex_toString ex_readFile ex_index (OString ''utf8'') ex_world
     = (Inr (Str ''module.x=1;''), ex_world) \<and>
   readFile_patch ex_pk ex_toString ex_readFile ex_index (OString ''utf8'') ex_world
     = (Inr [Inr (Str ''module.x=1;'')], ex_world) \<and>
   decode ex_toString (Some ''utf8'') ''module.x=1;'' = Inr (Str ''module.x=1;'') \<and>
   readFileSync_patch ex_pk ex_toString (\<lambda>p opts. throw (TypeError ''unused'')) ex_index
       (OString ''utf8'') ex_world
     = (Inr (Str ''module.x=1;''), ex_world)"
proof -
  have d: "isDir ex_dir" "\<not> isDir ex_file"
    by (simp_all add: ex_dir_def ex_file_def)
  have t: "ex_toString ''module.x=1;'' ''utf8'' = Inr ''module.x=1;''"
    by (simp add: ex_toString_def)
  have n: "pk_resolve ex_pk ex_index \<noteq> RNull"
    by (simp add: ex_resolve_index)
  show ?thesis
    using readFile_tracked [where pk = ex_pk and p = "''/proj/node_modules/a''" and r = ex_dir
        and ts = ex_toString and orig = ex_readFile and orig' = ex_readFile
        and opts = "OString ''utf8''" and w = ex_world]
      readFile_tracked [where pk = ex_pk and p = "''/proj/node_modules/a/missing.js''"
        and ts = ex_toString and orig = ex_readFile and orig' = ex_readFile
        and opts = OUndefined and w = ex_world]
      readFile_tracked [where pk = ex_pk and p = "''/proj/node_modules/a/missing.js''"
        and ts = ex_toString and orig = ex_readFile and orig' = ex_readFile
        and opts = OFunction and w = ex_world]
      readFile_tracked [where pk = ex_pk and p = ex_index and r = ex_file
        and ts = ex_toString and orig = ex_readFile and orig' = ex_readFile
        and opts = "OString ''utf8''" and w = ex_world and data = "''module.x=1;''"
        and d = "Str ''module.x=1;''" and enc = "''utf8''" and s = "''module.x=1;''"
        and other = "\<lambda>p opts. throw (TypeError ''unused'')"]
      ex_resolve_a ex_resolve_missing ex_resolve_index ex_readSync_present ex_read_present
      ex_decode_utf8 d t n
    by (simp del: requested_encoding.simps) metis
qed

section \<open>Access checks\<close>

text \<open>
  C7, as stated, fails on a map directory: a mode that asks for reading and writing
  together asks for writing, and the overlay grants it.
\<close>

theorem access_dir_read_write_counterexample:
  "pk_resolve ex_pk ''/proj/node_modules/a'' = RObj ex_dir \<and> isDir ex_dir \<and>
   W_OK AND (6::nat) \<noteq> 0 \<and>
   access_patch ex_pk ex_access ''/proj/node_modules/a'' (Some 6) ex_world
     = (Inr [Inr ()], ex_world) \<and>
   accessSync_patch ex_pk ex_access ''/proj/node_modules/a'' (Some 6) ex_world
     = Some (Inr (), ex_world)"
  by (simp add: ex_resolve_a access_patch_def accessSync_patch.simps default_mode_def
        F_OK_def R_OK_def W_OK_def deliver_def ret_def ex_dir_def)

text \<open>
  C7, amended. On an untracked path \<open>access\<close> and \<open>accessSync\<close> pass the call to
  the real primitive; on a missing path they fail with ENOENT; on a map directory they
  succeed when the mode is \<open>F_OK\<close> or has the read bit, whatever else it asks for, and
  fail with EACCES (errno -13) otherwise; on a map file whose stat is found they
  delegate to the access check of the cache path: the real one at once in \<open>access\<close>,
  the patched one in \<open>accessSync\<close>, which is the real one when the cache path is
  untracked.
\<close>

theorem access_overlay:
  "(pk_resolve pk p = RNull \<longrightarrow>
      access_patch pk access p mode w = once (access p mode) w \<and>
      accessSync_patch pk accessSync p mode w = Some (accessSync p mode w)) \<and>
   (pk_resolve pk p = RFalse \<longrightarrow>
      access_patch pk access p mode w = (Inr [Inl (notFoundError p)], w) \<and>
      accessSync_patch pk accessSync p mode w = Some (Inl (notFoundError p), w) \<and>
      ecode (notFoundError p) = Some ''ENOENT'') \<and>
   (pk_resolve pk p = RObj r \<and> isDir r \<and>
    (default_mode mode = F_OK \<or> R_OK AND default_mode mode \<noteq> 0) \<longrightarrow>
      access_patch pk access p mode w = (Inr [Inr ()], w) \<and>
      accessSync_patch pk accessSync p mode w = Some (Inr (), w)) \<and>
   (pk_resolve pk p = RObj r \<and> isDir r \<and>
    default_mode mode \<noteq> F_OK \<and> R_OK AND default_mode mode = 0 \<longrightarrow>
      access_patch pk access p mode w = (Inr [Inl (accessError p)], w) \<and>
      accessSync_patch pk accessSync p mode w = Some (Inl (accessError p), w) \<and>
      ecode (accessError p) = Some ''EACCES'' \<and> eerrno (accessError p) = Some (- 13)) \<and>
   (pk_resolve pk p = RObj r \<and> \<not> isDir r \<and> pk_stat pk r False w = Inr (Some st) \<longrightarrow>
      access_patch pk access p mode w
        = once (access (cachePath st) (Some (default_mode mode))) w) \<and>
   (pk_resolve pk p = RObj r \<and> \<not> isDir r \<and> pk_statSync pk r False w = Inr (Some st) \<longrightarrow>
      accessSync_patch pk accessSync p mode w
        = accessSync_patch pk accessSync (cachePath st) (Some (default_mode mode)) w) \<and>
   (pk_resolve pk p = RObj r \<and> \<not> isDir r \<and> pk_statSync pk r False w = Inr (Some st) \<and>
    pk_resolve pk (cachePath st) = RNull \<longrightarrow>
      accessSync_patch pk accessSync p mode w
        = Some (accessSync (cachePath st) (Some (default_mode mode)) w))"
proof -
  have sync: "accessSync_patch pk accessSync q md w =
     (case pk_resolve pk q of
        RNull \<Rightarrow> Some (accessSync q md w)
      | RFalse \<Rightarrow> Some (Inl (notFoundError q), w)
      | RObj resolved \<Rightarrow>
          (if isDir resolved then
             (if default_mode md = F_OK \<or> R_OK AND default_mode md \<noteq> 0 then Some (Inr (), w)
              else Some (Inl (accessError q), w))
           else (case pk_statSync pk resolved False w of
                   Inl e \<Rightarrow> Some (Inl e, w)
                 | Inr None \<Rightarrow> Some (Inl (notFoundError q), w)
                 | Inr (Some stat) \<Rightarrow>
                     accessSync_patch pk accessSync (cachePath stat) (Some (default_mode md)) w)))"
    for q md
    by (subst accessSync_patch.simps) (simp only: Let_def)
  have sync_untracked: "accessSync_patch pk accessSync q md w = Some (accessSync q md w)"
    if "pk_resolve pk q = RNull" for q md
    using that by (simp add: sync)
  have async: "access_patch pk access p mode w =
     (case pk_resolve pk p of
        RNull \<Rightarrow> once (access p mode) w
      | RFalse \<Rightarrow> (Inr [Inl (notFoundError p)], w)
      | RObj resolved \<Rightarrow>
          (if isDir resolved then
             (if default_mode mode = F_OK \<or> R_OK AND default_mode mode \<noteq> 0 then (Inr [Inr ()], w)
              else (Inr [Inl (accessError p)], w))
           else (case pk_stat pk resolved False w of
                   Inl e \<Rightarrow> (Inr [Inl e], w)
                 | Inr None \<Rightarrow> (Inr [Inl (notFoundError p)], w)
                 | Inr (Some stat) \<Rightarrow> once (access (cachePath stat) (Some (default_mode mode))) w)))"
    by (cases "pk_resolve pk p")
       (simp_all only: access_patch_def Let_def deliver_def ret_def resolution.case if_distribR)
  show ?thesis
    unfolding async sync [of p mode]
    by (simp add: sync_untracked notFoundError_def accessError_def)
qed

lemma ex_stat_index:
  "ex_stat ex_file v ex_world
     = Inr (Some \<lparr>st_size = 11, st_mode = 420, st_isDirectory = False, cachePath = ex_cache\<rparr>)"
  by (simp add: ex_stat_def ex_file_def ex_world_def)

lemma ex_resolve_cache: "pk_resolve ex_pk ex_cache = RNull"
  by (simp add: ex_pk_def ex_resolve_def ex_index_def ex_cache_def)

lemma ex_access_cache: "ex_access ex_cache m ex_world = (Inr (), ex_world)"
  by (simp add: ex_access_def ex_world_def)

theorem access_overlay_witness:
  "access_patch ex_pk ex_access ''/etc/hosts'' None ex_world
     = (Inr [Inl (ex_enoent ''access'' ''/etc/hosts'')], ex_world) \<and>
   accessSync_patch ex_pk ex_access ''/proj/node_modules/a/missing.js'' None ex_world
     = Some (Inl (notFoundError ''/proj/node_modules/a/missing.js''), ex_world) \<and>
   accessSync_patch ex_pk ex_access ''/proj/node_modules/a'' (Some 4) ex_world
     = Some (Inr (), ex_world) \<and>
   accessSync_patch ex_pk ex_access ''/proj/node_modules/a'' (Some 2) ex_world
     = Some (Inl (accessError ''/proj/node_modules/a''), ex_world) \<and>
   access_patch ex_pk ex_access ex_index None ex_world = (Inr [Inr ()], ex_world) \<and>
   accessSync_patch ex_pk ex_access ex_index None ex_world = Some (Inr (), ex_world)"
proof -
  have d: "isDir ex_dir" "\<not> isDir ex_file"
    by (simp_all add: ex_dir_def ex_file_def)
  have m: "default_mode None = F_OK" "default_mode (Some 4) = 4" "default_mode (Some 2) = 2"
      "R_OK AND (4::nat) \<noteq> 0" "R_OK AND (2::nat) = 0" "(2::nat) \<noteq> F_OK"
    by (simp_all add: default_mode_def R_OK_def F_OK_def)
  have s: "pk_stat ex_pk ex_file False ex_world
             = Inr (Some \<lparr>st_size = 11, st_mode = 420, st_isDirectory = False, cachePath = ex_cache\<rparr>)"
       "pk_statSync ex_pk ex_file False ex_world
             = Inr (Some \<lparr>st_size = 11, st_mode = 420, st_isDirectory = False, cachePath = ex_cache\<rparr>)"
    by (simp_all add: ex_pk_def ex_stat_index)
  have h: "once (ex_access ''/etc/hosts'' None) ex_world
             = (Inr [Inl (ex_enoent ''access'' ''/etc/hosts'')], ex_world)"
    by (simp add: once_def ex_access_def ex_world_def ex_cache_def)
  have c: "once (ex_access ex_cache (Some F_OK)) ex_world = (Inr [Inr ()], ex_world)"
    by (simp add: once_def ex_access_cache)
  have a1: "access_patch ex_pk ex_access ''/etc/hosts'' None ex_world
     = (Inr [Inl (ex_enoent ''access'' ''/etc/hosts'')], ex_world)"
    using access_overlay [where pk = ex_pk and p = "''/etc/hosts''" and access = ex_access
        and accessSync = ex_access and mode = None and w = ex_world]
      ex_resolve_etc h by simp
  have a2: "accessSync_patch ex_pk ex_access ''/proj/node_modules/a/missing.js'' None ex_world
     = Some (Inl (notFoundError ''/proj/node_modules/a/missing.js''), ex_world)"
    using access_overlay [where pk = ex_pk and p = "''/proj/node_modules/a/missing.js''"
        and access = ex_access and accessSync = ex_access and mode = None and w = ex_world]
      ex_resolve_missing by simp
  have a3: "accessSync_patch ex_pk ex_access ''/proj/node_modules/a'' (Some 4) ex_world
     = Some (Inr (), ex_world)"
    using access_overlay [where pk = ex_pk and p = "''/proj/node_modules/a''" and r = ex_dir
        and access = ex_access and accessSync = ex_access and mode = "Some 4" and w = ex_world]
      ex_resolve_a d m by simp
  have a4: "accessSync_patch ex_pk ex_access ''/proj/node_modules/a'' (Some 2) ex_world
     = Some (Inl (accessError ''/proj/node_modules/a''), ex_world)"
    using access_overlay [where pk = ex_pk and p = "''/proj/node_modules/a''" and r = ex_dir
        and access = ex_access and accessSync = ex_access and mode = "Some 2" and w = ex_world]
      ex_resolve_a d m by simp
  note i5 = access_overlay [where pk = ex_pk and p = ex_index and r = ex_file
        and access = ex_access and accessSync = ex_access and mode = None and w = ex_world
        and st = "\<lparr>st_size = 11, st_mode = 420, st_isDirectory = False, cachePath = ex_cache\<rparr>"]
  have a5: "access_patch ex_pk ex_access ex_index None ex_world = (Inr [Inr ()], ex_world)"
    using i5 ex_resolve_index d m s c by simp
  have a6: "accessSync_patch ex_pk ex_access ex_index None ex_world = Some (Inr (), ex_world)"
    using i5 [THEN conjunct2, THEN conjunct2, THEN conjunct2, THEN conjunct2, THEN conjunct2,
        THEN conjunct2]
      ex_resolve_index ex_resolve_cache ex_access_cache d m s by simp
  from a1 a2 a3 a4 a5 a6 show ?thesis by simp
qed

section \<open>Opening files\<close>

lemma then_cb_once:
  "then_cb (once m) k w = (case m w of (c, w') \<Rightarrow> k c w')"
  by (simp add: then_cb_def once_def bind_def ret_def split: prod.splits sum.splits)

lemma openSync_on_file:
  assumes "pk_resolve pk p = RObj r" and "\<not> isDir r"
    and "pk_statSync pk r True w = Inr (Some st)"
  shows "openSync_patch pk h openSync p flags mode w =
      (if flags = FStr ''r'' then openSync (cachePath st) flags mode w
       else bind (fs_copyFileSync h (cachePath st) p) (\<lambda>u.
            bind (fs_chmodSync h p 493) (\<lambda>u. openSync p flags mode)) w)"
  using assms by (simp add: openSync_patch_def bind_def lift_rd_def)

lemma open_real_call_first:
  assumes "open p flags mode w = (Inr fd, w1)"
  shows "open_patch pk h ts readFile chmod open p flags mode w = (Inr [Inr fd], w1)"
  using assms by (simp add: open_patch_def then_cb_once deliver_def ret_def)

lemma chmod_on_file:
  assumes "pk_resolve pk p = RObj r" and "\<not> isDir r"
    and "mkdirp h (dirname p) None w2 = (Inr (), w3)" and "pk_read pk r w3 = Inr data"
    and "fs_writeFile h p (Some (Buffer data)) m w3 = (Inr (), w4)"
  shows "chmod_patch pk h ts readFile chmod p m w2 = (Inr [Inr ()], w4)"
  using assms
  by (simp add: chmod_patch_def then_cb_once readFile_patch_def then_cb_def bind_def ret_def
        decode_def once_def)

lemma open_materialise:
  assumes "pk_resolve pk p = RObj r" and "\<not> isDir r"
    and "open p flags mode w = (Inl err, w1)" and "ecode err = Some ''ENOENT''"
    and "pk_stat pk r True w1 = Inr (Some st)" and "flags \<noteq> FStr ''r''"
    and "fs_copyFile h (cachePath st) p w1 = (Inr (), w2)"
    and "mkdirp h (dirname p) None w2 = (Inr (), w3)" and "pk_read pk r w3 = Inr data"
    and "fs_writeFile h p (Some (Buffer data)) 493 w3 = (Inr (), w4)"
  shows "open_patch pk h ts readFile chmod open p flags mode w = once (open p flags mode) w4"
  using assms(1-7) chmod_on_file [OF assms(1,2,8-10)]
  by (simp add: open_patch_def then_cb_once)
     (simp add: then_cb_def bind_def ret_def once_def split: prod.splits sum.splits)

lemma ex_statSync_index:
  "pk_statSync ex_pk ex_file v ex_world
     = Inr (Some \<lparr>st_size = 11, st_mode = 420, st_isDirectory = False, cachePath = ex_cache\<rparr>)"
  "pk_stat ex_pk ex_file v ex_world
     = Inr (Some \<lparr>st_size = 11, st_mode = 420, st_isDirectory = False, cachePath = ex_cache\<rparr>)"
  by (simp_all add: ex_pk_def ex_stat_index)

lemma ex_statSync_index_a:
  "pk_statSync ex_pk ex_file v ex_world_a
     = Inr (Some \<lparr>st_size = 11, st_mode = 420, st_isDirectory = False, cachePath = ex_cache\<rparr>)"
  "pk_stat ex_pk ex_file v ex_world_a
     = Inr (Some \<lparr>st_size = 11, st_mode = 420, st_isDirectory = False, cachePath = ex_cache\<rparr>)"
  by (simp_all add: ex_pk_def ex_stat_def ex_file_def ex_world_a_def)

lemma ex_dirname_index: "dirname ex_index = ''/proj/node_modules/a''"
  by (simp add: dirname_def ex_index_def)

lemma ex_dir_a: "ex_dir_exists ex_world_a ''/proj/node_modules/a''"
  "ex_dir_exists ((q, c) # ex_world_a) ''/proj/node_modules/a''"
  "\<not> ex_dir_exists ex_world ''/proj/node_modules/a''"
  "\<not> ex_dir_exists ex_world_a ex_index"
  "\<not> ex_dir_exists ex_world ex_index"
  by (simp_all add: ex_dir_exists_def ex_world_a_def ex_world_def ex_pkgjson_def ex_cache_def
        ex_index_def)

lemma ex_lookup_a:
  "map_of ex_world_a ex_index = None"
  "map_of ex_world_a ex_cache = Some (''module.x=1;'', 420)"
  "map_of ex_world ex_index = None"
  "map_of ex_world ex_cache = Some (''module.x=1;'', 420)"
  by (simp_all add: ex_world_a_def ex_world_def ex_pkgjson_def ex_cache_def ex_index_def)

lemma ex_copy_index:
  "ex_copy ex_cache ex_index ex_world_a = (Inr (), (ex_index, ''module.x=1;'', 420) # ex_world_a)"
  "ex_copy ex_cache ex_index ex_world = (Inl (ex_enoent ''copyfile'' ex_index), ex_world)"
  by (simp_all add: ex_copy_def ex_lookup_a ex_dirname_index ex_dir_a)

lemma ex_chmod_index:
  "ex_chmodSync ex_index 493 ((ex_index, ''module.x=1;'', 420) # ex_world_a)
     = (Inr (), (ex_index, ''module.x=1;'', 493) # (ex_index, ''module.x=1;'', 420) # ex_world_a)"
  by (simp add: ex_chmodSync_def)

lemma ex_open_present: "ex_open ex_index flags mode ((ex_index, b, m) # w)
     = (if flags = FStr ''w'' \<or> flags = FStr ''w+'' then (Inr 3, (ex_index, [], m) # (ex_index, b, m) # w)
        else (Inr 3, (ex_index, b, m) # w))"
  by (simp add: ex_open_def)

lemma ex_open_absent:
  "ex_open ex_index (FStr ''a'') mode ex_world_a = (Inr 3, (ex_index, [], 420) # ex_world_a)"
  "ex_open ex_index (FStr ''r+'') mode ex_world_a = (Inl (ex_enoent ''open'' ex_index), ex_world_a)"
  "ex_open ex_index (FStr ''r'') mode ex_world_a = (Inl (ex_enoent ''open'' ex_index), ex_world_a)"
  by (simp_all add: ex_open_def ex_lookup_a ex_dir_a ex_dirname_index ex_writing_def)

lemma ex_host_fields:
  "fs_copyFileSync ex_host = ex_copy" "fs_chmodSync ex_host = ex_chmodSync"
  "fs_copyFile ex_host = ex_copy" "fs_writeFile ex_host = ex_writeFile"
  "mkdirp ex_host = ex_mkdirp"
  by (simp_all add: ex_host_def)

lemma ex_file_not_dir: "\<not> isDir ex_file"
  by (simp add: ex_file_def)

lemma ex_enoent_code: "ecode (ex_enoent s q) = Some ''ENOENT''"
  by (simp add: ex_enoent_def)

text \<open>
  C2. The path resolves to a map file, its real directory exists and the file itself
  does not. The asynchronous \<open>open\<close> with the flag \<open>a\<close> hands on the descriptor of
  the real call, which has created an empty file with the default mode: the blob is
  not copied. \<open>openSync\<close> with the same flag leaves the blob at the path with the
  mode 0o755. With the flag \<open>r+\<close>, where the real call fails with ENOENT, the
  asynchronous \<open>open\<close> copies the blob and leaves the mode of the copy as it was.
  \<open>openSync\<close> with the read-only flag \<open>O_RDONLY\<close>, the number 0, copies the blob
  to the path.
\<close>

theorem open_skips_materialise:
  "pk_resolve ex_pk ex_index = RObj ex_file \<and> \<not> isDir ex_file \<and>
   open_patch ex_pk ex_host ex_toString ex_readFile ex_chmodSync ex_open ex_index (FStr ''a'') None
       ex_world_a
     = (Inr [Inr 3], (ex_index, [], 420) # ex_world_a) \<and>
   openSync_patch ex_pk ex_host ex_open ex_index (FStr ''a'') None ex_world_a
     = (Inr 3, (ex_index, ''module.x=1;'', 493) # (ex_index, ''module.x=1;'', 420) # ex_world_a) \<and>
   open_patch ex_pk ex_host ex_toString ex_readFile ex_chmodSync ex_open ex_index (FStr ''r+'') None
       ex_world_a
     = (Inr [Inr 3], (ex_index, ''module.x=1;'', 420) # (ex_index, ''module.x=1;'', 420) # ex_world_a) \<and>
   openSync_patch ex_pk ex_host ex_open ex_index (FNum 0) None ex_world_a
     = (Inr 3, (ex_index, ''module.x=1;'', 493) # (ex_index, ''module.x=1;'', 420) # ex_world_a)"
proof -
  let ?st = "\<lparr>st_size = 11, st_mode = 420, st_isDirectory = False, cachePath = ex_cache\<rparr>"
  let ?w1 = "(ex_index, ''module.x=1;'', 420) # ex_world_a"
  let ?w2 = "(ex_index, ''module.x=1;'', 493) # ?w1"
  let ?w4 = "(ex_index, ''module.x=1;'', 420) # ?w1"
  have a1: "open_patch ex_pk ex_host ex_toString ex_readFile ex_chmodSync ex_open ex_index
      (FStr ''a'') None ex_world_a = (Inr [Inr 3], (ex_index, [], 420) # ex_world_a)"
    by (rule open_real_call_first) (rule ex_open_absent)
  have s: "openSync_patch ex_pk ex_host ex_open ex_index flags None ex_world_a = (Inr 3, ?w2)"
    if "flags \<noteq> FStr ''r''" "flags \<noteq> FStr ''w''" "flags \<noteq> FStr ''w+''" for flags
    using that
    by (simp add: openSync_on_file [OF ex_resolve_index ex_file_not_dir ex_statSync_index_a(1)]
          bind_def ex_host_fields ex_copy_index ex_chmod_index ex_open_present)
  have m: "ex_mkdirp (dirname ex_index) None ?w1 = (Inr (), ?w1)"
    by (simp add: ex_mkdirp_def ex_dirname_index ex_dir_a)
  have r: "pk_read ex_pk ex_file ?w1 = Inr ''module.x=1;''"
    by (simp add: ex_pk_def ex_read_def ex_file_def ex_world_a_def ex_pkgjson_def ex_index_def
          ex_cache_def)
  have wf: "ex_writeFile ex_index (Some (Buffer ''module.x=1;'')) 493 ?w1 = (Inr (), ?w4)"
    by (simp add: ex_writeFile_def ex_bytes_def)
  have a2: "open_patch ex_pk ex_host ex_toString ex_readFile ex_chmodSync ex_open ex_index
      (FStr ''r+'') None ex_world_a = (Inr [Inr 3], ?w4)"
    using open_materialise [where pk = ex_pk and h = ex_host and p = ex_index and r = ex_file
        and ?open = ex_open and flags = "FStr ''r+''" and mode = None and w = ex_world_a
        and ?w1.0 = ex_world_a and err = "ex_enoent ''open'' ex_index" and st = ?st
        and ?w2.0 = ?w1 and ?w3.0 = ?w1 and ?w4.0 = ?w4 and data = "''module.x=1;''"
        and ts = ex_toString and readFile = ex_readFile and chmod = ex_chmodSync]
      ex_resolve_index ex_file_not_dir ex_open_absent ex_enoent_code ex_statSync_index_a
      ex_host_fields ex_copy_index m r wf
    by (simp add: once_def ex_open_present)
  show ?thesis
    using a1 a2 s [of "FStr ''a''"] s [of "FNum 0"] ex_resolve_index ex_file_not_dir by simp
qed

theorem open_skips_materialise_witness:
  "\<exists>w. open_patch ex_pk ex_host ex_toString ex_readFile ex_chmodSync ex_open ex_index (FStr ''a'')
          None ex_world_a = (Inr [Inr 3], w) \<and>
       map_of w ex_index = Some ([], 420) \<and>
       map_of w ex_index \<noteq> Some (''module.x=1;'', 493)"
  using open_skips_materialise by simp

section \<open>Streams\<close>

lemma stream_passes_to_constructor:
  assumes "\<forall>r. pk_resolve pk p = RObj r \<longrightarrow> isDir r"
  shows "createReadStream_patch pk h crs p opts = crs p opts"
    and "createWriteStream_patch pk h cws p opts = cws p opts"
  using assms
  by (cases "pk_resolve pk p";
      simp add: createReadStream_patch_def createWriteStream_patch_def)+

lemma stream_on_file:
  assumes "pk_resolve pk p = RObj r" and "\<not> isDir r"
    and "pk_statSync pk r True w = Inr (Some st)"
  shows "createReadStream_patch pk h crs p opts w =
       (if opts = Some (FStr ''r'') then crs (cachePath st) opts w
        else bind (fs_copyFileSync h (cachePath st) p) (\<lambda>u.
             bind (fs_chmodSync h p 493) (\<lambda>u. crs p opts)) w)"
    and "createWriteStream_patch pk h cws p opts w =
       bind (fs_copyFileSync h (cachePath st) p) (\<lambda>u.
       bind (fs_chmodSync h p 493) (\<lambda>u. cws p opts)) w"
  using assms
  by (simp_all add: createReadStream_patch_def createWriteStream_patch_def bind_def lift_rd_def)

lemma ex_open_nowhere:
  "ex_open ''/proj/node_modules/a/missing.js'' (FStr ''r'') mode ex_world
     = (Inl (ex_enoent ''open'' ''/proj/node_modules/a/missing.js''), ex_world)"
  "ex_open ''/proj/node_modules/a'' (FStr ''r'') mode ex_world
     = (Inl (ex_enoent ''open'' ''/proj/node_modules/a''), ex_world)"
  by (simp_all add: ex_open_def ex_world_def ex_cache_def ex_dir_exists_def ex_writing_def)

lemma stream_missing_and_dir:
  "createReadStream_patch ex_pk ex_host ex_ReadStream ''/proj/node_modules/a/missing.js'' None ex_world
     = (Inr [Inl (notFoundError ''/proj/node_modules/a/missing.js'')], ex_world)"
  "createReadStream_patch ex_pk ex_host ex_ReadStream ''/proj/node_modules/a'' None ex_world
     = (Inr [Inl (isDirError ''/proj/node_modules/a'' ''read'')], ex_world)"
proof -
  have d: "isDir ex_dir"
    by (simp add: ex_dir_def)
  show "createReadStream_patch ex_pk ex_host ex_ReadStream ''/proj/node_modules/a/missing.js'' None
      ex_world = (Inr [Inl (notFoundError ''/proj/node_modules/a/missing.js'')], ex_world)"
    by (simp add: stream_passes_to_constructor ex_resolve_missing ex_ReadStream_def ex_fs_open_def
          open_patch_def then_cb_once ex_open_nowhere ex_enoent_code deliver_def ret_def)
  show "createReadStream_patch ex_pk ex_host ex_ReadStream ''/proj/node_modules/a'' None ex_world
      = (Inr [Inl (isDirError ''/proj/node_modules/a'' ''read'')], ex_world)"
    by (simp add: stream_passes_to_constructor ex_resolve_a d ex_ReadStream_def ex_fs_open_def
          open_patch_def then_cb_once ex_open_nowhere ex_enoent_code deliver_def ret_def)
qed

text \<open>
  C9. The path resolves to a map file whose blob is in the cache. \<open>createReadStream\<close>
  called with the path alone, which asks for reading only, copies the blob to the
  requested path and sets the mode of the copy before it streams from there; with the
  options \<open>{flags: 'r'}\<close> it streams from the cache path and writes nothing. Where the
  real directory of the path does not exist, the call with the path alone throws the
  ENOENT of the copy.
\<close>

theorem createReadStream_default_materialises:
  "pk_resolve ex_pk ex_index = RObj ex_file \<and> \<not> isDir ex_file \<and>
   createReadStream_patch ex_pk ex_host ex_ReadStream ex_index None ex_world_a
     = (Inr [Inr 3], (ex_index, ''module.x=1;'', 493) # (ex_index, ''module.x=1;'', 420) # ex_world_a) \<and>
   createReadStream_patch ex_pk ex_host ex_ReadStream ex_index (Some (FStr ''r'')) ex_world_a
     = (Inr [Inr 3], ex_world_a) \<and>
   createReadStream_patch ex_pk ex_host ex_ReadStream ex_index None ex_world
     = (Inl (ex_enoent ''copyfile'' ex_index), ex_world)"
proof -
  let ?w2 = "(ex_index, ''module.x=1;'', 493) # (ex_index, ''module.x=1;'', 420) # ex_world_a"
  have o2: "ex_ReadStream ex_index None ?w2 = (Inr [Inr 3], ?w2)"
    unfolding ex_ReadStream_def ex_fs_open_def
    by (simp add: open_real_call_first [where fd = 3 and ?w1.0 = ?w2] ex_open_present)
  have oc: "ex_open ex_cache (FStr ''r'') (Some 438) ex_world_a = (Inr 3, ex_world_a)"
    by (simp add: ex_open_def ex_lookup_a)
  have o0: "ex_ReadStream ex_cache (Some (FStr ''r'')) ex_world_a = (Inr [Inr 3], ex_world_a)"
    unfolding ex_ReadStream_def ex_fs_open_def
    by (simp add: open_real_call_first [where ?open = ex_open, OF oc])
  have b1: "createReadStream_patch ex_pk ex_host ex_ReadStream ex_index None ex_world_a
      = (Inr [Inr 3], ?w2)"
    by (simp add: stream_on_file [OF ex_resolve_index ex_file_not_dir ex_statSync_index_a(1)]
          bind_def ex_host_fields ex_copy_index ex_chmod_index o2)
  have b2: "createReadStream_patch ex_pk ex_host ex_ReadStream ex_index (Some (FStr ''r'')) ex_world_a
      = (Inr [Inr 3], ex_world_a)"
    by (simp add: stream_on_file [OF ex_resolve_index ex_file_not_dir ex_statSync_index_a(1)] o0)
  have b3: "createReadStream_patch ex_pk ex_host ex_ReadStream ex_index None ex_world
      = (Inl (ex_enoent ''copyfile'' ex_index), ex_world)"
    by (simp add: stream_on_file [OF ex_resolve_index ex_file_not_dir ex_statSync_index(1)]
          bind_def ex_host_fields ex_copy_index)
  show ?thesis
    using b1 b2 b3 ex_resolve_index ex_file_not_dir by simp
qed

theorem createReadStream_default_materialises_witness:
  "\<exists>w. createReadStream_patch ex_pk ex_host ex_ReadStream ex_index None ex_world_a
          = (Inr [Inr 3], w) \<and>
       map_of w ex_index = Some (''module.x=1;'', 493) \<and> map_of ex_world_a ex_index = None"
  using createReadStream_default_materialises ex_lookup_a by simp

section \<open>The seal of the lockfile\<close>

lemma checkLock_validLockHash:
  "checkLock e this fs = (Inr this', fs') \<Longrightarrow> \<not> validLockHash this \<Longrightarrow> \<not> validLockHash this'"
  by (auto simp add: checkLock_def bind_def ret_def throw_def npmInstall_def Let_def
        split: option.splits sum.splits if_splits prod.splits)

lemma prepare_stage_never_valid:
  "prepare_stage e (constructor e) fs = (Inr this, fs') \<Longrightarrow> \<not> validLockHash this"
  by (auto simp add: prepare_stage_def constructor_def dest!: checkLock_validLockHash)

lemma run_always_regenerates:
  "run e fs = (Inr this, fs') \<Longrightarrow> ''fetchTree'' \<in> set (timings this)"
  by (auto simp add: run_def bind_def ret_def Let_def regenerate_def timedStage_def
        writeLockHash_def
        split: sum.splits prod.splits option.splits if_splits dest!: prepare_stage_never_valid)

lemma prepare_reuses_when_sealed:
  "checkPkgLock e fs \<Longrightarrow> prepare e False fs = fs"
  by (simp add: prepare_def)

text \<open>
  C6. The installer on a project whose persisted seal verifies against the current
  lockfile, with \<open>force\<close> unset: \<open>checkLock\<close> leaves \<open>validLockHash\<close> false, as the
  constructor set it, and \<open>run\<close> goes through every stage of a regeneration. The first
  project has its lockfile in \<open>npm-shrinkwrap.json\<close>, so the \<open>prepare\<close> command
  starts the installer; the second is the installer called on its own.
\<close>

theorem run_regenerates_under_valid_seal:
  "ssri_checkData (hash ex_env) (Some (stringify ex_env (lock_text 1)))
       (lockfile_integrity (ex_seal 1)) = Inr True \<and>
   \<not> opts_force ex_env \<and>
   prepare ex_env False ex_shrinkwrapped = snd (run ex_env ex_shrinkwrapped) \<and>
   run ex_env ex_shrinkwrapped
     = (Inr \<lparr>shrinkwrap = Some (lock_text 1), pkglockHash = Some (ex_seal 1),
             validLockHash = False, force = False,
             timings = [''prepare'', ''fetchTree'', ''updateJson'', ''buildTree'', ''runScript'',
                        ''runScript'', ''writeLockHash'', ''teardown'', ''teardown'']\<rparr>,
        ex_shrinkwrapped) \<and>
   run ex_env ex_locked
     = (Inr \<lparr>shrinkwrap = Some (lock_text 1), pkglockHash = Some (ex_seal 1),
             validLockHash = False, force = False,
             timings = [''prepare'', ''fetchTree'', ''updateJson'', ''buildTree'', ''runScript'',
                        ''runScript'', ''writeLockHash'', ''teardown'', ''teardown'']\<rparr>,
        ex_locked)"
proof -
  have v: "ssri_checkData ex_hash (Some (lock_text n)) (lockfile_integrity (ex_seal n))
             = Inr True" for n
    by (simp add: ssri_checkData_def ex_seal_def ex_hash_def)
  have f: "ssri_fromData ex_hash (Some (lock_text n))
             = Inr (Integrity ''sha512'' (replicate (length (lock_text n)) (CHR ''A'')))" for n
    by (simp add: ssri_fromData_def ex_hash_def)
  have e: "hash ex_env = ex_hash" "stringify ex_env l = l" "lockfileVersion ex_env l"
      "npm ex_env fs = fs" "lockVerify ex_env fs" "\<not> opts_force ex_env" for l fs
    by (simp_all add: ex_env_def)
  have r1: "run ex_env ex_shrinkwrapped
     = (Inr \<lparr>shrinkwrap = Some (lock_text 1), pkglockHash = Some (ex_seal 1),
             validLockHash = False, force = False,
             timings = [''prepare'', ''fetchTree'', ''updateJson'', ''buildTree'', ''runScript'',
                        ''runScript'', ''writeLockHash'', ''teardown'', ''teardown'']\<rparr>,
        ex_shrinkwrapped)"
    by (simp add: run_def prepare_stage_def checkLock_def constructor_def bind_def ret_def e v f
          lock_missing_def regenerate_def timedStage_def writeLockHash_def Let_def
          ex_shrinkwrapped_def)
       (simp add: ex_seal_def)
  have r2: "run ex_env ex_locked
     = (Inr \<lparr>shrinkwrap = Some (lock_text 1), pkglockHash = Some (ex_seal 1),
             validLockHash = False, force = False,
             timings = [''prepare'', ''fetchTree'', ''updateJson'', ''buildTree'', ''runScript'',
                        ''runScript'', ''writeLockHash'', ''teardown'', ''teardown'']\<rparr>,
        ex_locked)"
    by (simp add: run_def prepare_stage_def checkLock_def constructor_def bind_def ret_def e v f
          lock_missing_def regenerate_def timedStage_def writeLockHash_def Let_def
          ex_locked_def)
       (simp add: ex_seal_def)
  have p: "prepare ex_env False ex_shrinkwrapped = snd (run ex_env ex_shrinkwrapped)"
    by (simp add: prepare_def checkPkgLock_def ex_shrinkwrapped_def)
  show ?thesis
    using v e r1 r2 p by simp
qed

theorem run_regenerates_under_valid_seal_witness:
  "\<exists>inst. run ex_env ex_shrinkwrapped = (Inr inst, ex_shrinkwrapped) \<and>
      \<not> validLockHash inst \<and> \<not> force inst \<and>
      ''fetchTree'' \<in> set (timings inst) \<and> ''writeLockHash'' \<in> set (timings inst)"
  using run_regenerates_under_valid_seal by simp

text \<open>
  C5. \<open>writeLockHash\<close> writes \<open>node_modules/.pkglock-hash\<close> as an object whose
  \<open>lockfile_integrity\<close> is the sha512 integrity of the serialised lockfile, and leaves
  the other files alone. \<open>checkPkgLock\<close> accepts that seal for the lockfile it was
  written for. It accepts it for a lockfile exactly when the digest of the lockfile's
  serialisation is the sealed one, so it rejects every lockfile whose serialisation
  differs, the hash telling the two serialisations apart.
\<close>

theorem seal_validity:
  "shrinkwrap inst = Some l \<and> hash e ''sha512'' = Some h \<longrightarrow>
     (\<exists>fs'. writeLockHash e inst fs = (Inr (), fs') \<and>
        hash_file fs'
          = Some \<lparr>lockfile_integrity = SriString (Some (Integrity ''sha512'' (h (stringify e l))))\<rparr> \<and>
        package_lock fs' = package_lock fs \<and> npm_shrinkwrap fs' = npm_shrinkwrap fs \<and>
        checkPkgLock e (fs'\<lparr>package_lock := Some l\<rparr>) \<and>
        (\<forall>l'. checkPkgLock e (fs'\<lparr>package_lock := Some l'\<rparr>)
                \<longleftrightarrow> h (stringify e l') = h (stringify e l)) \<and>
        (\<forall>l'. stringify e l' \<noteq> stringify e l \<and> inj_on h {stringify e l, stringify e l'}
                \<longrightarrow> \<not> checkPkgLock e (fs'\<lparr>package_lock := Some l'\<rparr>)))"
  by (auto simp add: writeLockHash_def checkPkgLock_def ssri_checkData_def ssri_fromData_def
        inj_on_def)

theorem seal_validity_witness:
  "writeLockHash ex_env (constructor ex_env\<lparr>shrinkwrap := Some (lock_text 1)\<rparr>)
       \<lparr>package_lock = Some (lock_text 1), npm_shrinkwrap = None, hash_file = None\<rparr>
     = (Inr (), ex_locked) \<and>
   checkPkgLock ex_env ex_locked \<and>
   lock_text 2 \<noteq> lock_text 1 \<and>
   \<not> checkPkgLock ex_env (ex_locked\<lparr>package_lock := Some (lock_text 2)\<rparr>)"
proof -
  let ?inst = "constructor ex_env\<lparr>shrinkwrap := Some (lock_text 1)\<rparr>"
  let ?fs = "\<lparr>package_lock = Some (lock_text 1), npm_shrinkwrap = None, hash_file = None\<rparr>"
  let ?h = "\<lambda>data. replicate (length data) (CHR ''A'')"
  have s: "shrinkwrap ?inst = Some (lock_text 1)"
    by simp
  have e: "hash ex_env ''sha512'' = Some ?h" "stringify ex_env = (\<lambda>l. l)"
    by (simp_all add: ex_env_def ex_hash_def)
  have n: "lock_text 2 \<noteq> lock_text 1"
    by (simp add: lock_text_def numeral_2_eq_2)
  have i: "inj_on ?h {lock_text 1, lock_text 2}"
    by (simp add: inj_on_def lock_text_def numeral_2_eq_2)
  from seal_validity [where inst = ?inst and l = "lock_text 1" and e = ex_env and fs = ?fs
      and h = ?h] s e
  obtain fs' where w: "writeLockHash ex_env ?inst ?fs = (Inr (), fs')"
    and h: "hash_file fs'
          = Some \<lparr>lockfile_integrity = SriString (Some (Integrity ''sha512'' (?h (lock_text 1))))\<rparr>"
    and p: "package_lock fs' = package_lock ?fs" "npm_shrinkwrap fs' = npm_shrinkwrap ?fs"
    and c: "checkPkgLock ex_env (fs'\<lparr>package_lock := Some (lock_text 1)\<rparr>)"
    and a: "\<forall>l'. l' \<noteq> lock_text 1 \<and> inj_on ?h {lock_text 1, l'}
                \<longrightarrow> \<not> checkPkgLock ex_env (fs'\<lparr>package_lock := Some l'\<rparr>)"
    by auto
  have "fs' = ex_locked"
    using h p by (simp add: ex_locked_def ex_seal_def)
  with w c a n i show ?thesis
    by (simp add: ex_locked_def)
qed

end
